theory Spec2Isabelle
  imports Main "HOL-Library.Word"
begin

section \<open>Numbers (number.hpp)\<close>

text \<open>
  \<^verbatim>\<open>using Int = int64_t; using Float = double; using Complex = std::complex<double>;\<close>

  An \<open>Int\<close> (here \<open>Int_t\<close>) is a 64-bit word read as a signed value. A \<open>Float\<close> is an IEEE-754 binary64
  value given by its three fields: the sign bit, the biased exponent (11 bits) and the
  fraction (52 bits). Exponent 2047 with a non-zero fraction is a NaN, exponent 2047 with
  fraction 0 an infinity, exponent 0 with fraction 0 a zero (of either sign).
\<close>

type_synonym Int_t = "64 word"

datatype Float = Float_bits (sign_bit: bool) (expo: nat) (frac: nat)

type_synonym Complex = "Float \<times> Float"

definition Float_isnan :: "Float \<Rightarrow> bool" where
  "Float_isnan f = (expo f = 2047 \<and> frac f \<noteq> 0)"

text \<open>
  The order of IEEE-754 values that are not NaN is the order of their sign-magnitude bit
  patterns; both zeros have key 0.
\<close>

definition Float_key :: "Float \<Rightarrow> int" where
  "Float_key f =
     (if sign_bit f then - int (expo f * 2 ^ 52 + frac f) else int (expo f * 2 ^ 52 + frac f))"

text \<open>The comparisons of C++ on \<open>double\<close>: each is false as soon as an operand is NaN,
  except \<open>!=\<close>, which is then true.\<close>

definition Float_less :: "Float \<Rightarrow> Float \<Rightarrow> bool" where
  "Float_less a b = (\<not> Float_isnan a \<and> \<not> Float_isnan b \<and> Float_key a < Float_key b)"

definition Float_greater :: "Float \<Rightarrow> Float \<Rightarrow> bool" where
  "Float_greater a b = Float_less b a"

definition Float_eq :: "Float \<Rightarrow> Float \<Rightarrow> bool" where
  "Float_eq a b = (\<not> Float_isnan a \<and> \<not> Float_isnan b \<and> Float_key a = Float_key b)"

definition Float_neq :: "Float \<Rightarrow> Float \<Rightarrow> bool" where
  "Float_neq a b = (\<not> Float_eq a b)"

definition Float_zero :: Float where
  "Float_zero = Float_bits False 0 0"

definition Float_one :: Float where
  "Float_one = Float_bits False 1023 0"

definition Float_minus_one :: Float where
  "Float_minus_one = Float_bits True 1023 0"

definition Float_minus_two :: Float where
  "Float_minus_two = Float_bits True 1024 0"

definition Float_quiet_NaN :: Float where
  "Float_quiet_NaN = Float_bits False 2047 0x8000000000000"

text \<open>
  \<^verbatim>\<open>static_cast<Float>(x)\<close> for \<open>x\<close> of an integral type, from the value \<open>v\<close> of \<open>x\<close>: the
  nearest binary64 value, ties to even.
\<close>

fun bit_length :: "nat \<Rightarrow> nat" where
  "bit_length n = (if n = 0 then 0 else Suc (bit_length (n div 2)))"

declare bit_length.simps [simp del]

definition Float_of_Int :: "int \<Rightarrow> Float" where
  "Float_of_Int v =
     (let m = nat \<bar>v\<bar>; e = bit_length m - 1 in
      if v = 0 then Float_zero
      else if e \<le> 52 then Float_bits (v < 0) (e + 1023) (m * 2 ^ (52 - e) - 2 ^ 52)
      else
        let sh = e - 52; q = m div 2 ^ sh; r = m mod 2 ^ sh; half = 2 ^ (sh - 1);
            q' = (if half < r \<or> (r = half \<and> odd q) then q + 1 else q)
        in if q' = 2 ^ 53 then Float_bits (v < 0) (e + 1024) 0
           else Float_bits (v < 0) (e + 1023) (q' - 2 ^ 52))"

text \<open>
  \<^verbatim>\<open>struct Number : std::variant<Int, Float, Complex>\<close>: one constructor per alternative.
\<close>

datatype Number = Num_Int Int_t | Num_Float Float | Num_Complex Float Float

text \<open>
  A value of an arithmetic type, as the constructor templates receive it. The templates
  take every integral type: a value of a signed one is held here in the widest of them
  (64 bits, two's complement) and a value of an unsigned one in the widest unsigned
  type (64 bits), both without change of value; \<open>Floating\<close> is a value of the type
  \<open>Float\<close>.
\<close>

datatype arith = Integral Int_t | Unsigned "64 word" | Floating Float

text \<open>
  \<open>y > IM{ 0 }\<close> and \<open>y < IM{ 0 }\<close>, in the type of \<open>y\<close>: a value of an unsigned type is
  never less than zero.
\<close>

fun arith_greater_zero :: "arith \<Rightarrow> bool" where
  "arith_greater_zero (Integral i) = (0 <s i)"
| "arith_greater_zero (Unsigned u) = (0 < u)"
| "arith_greater_zero (Floating f) = Float_greater f Float_zero"

fun arith_less_zero :: "arith \<Rightarrow> bool" where
  "arith_less_zero (Integral i) = (i <s 0)"
| "arith_less_zero (Unsigned u) = False"
| "arith_less_zero (Floating f) = Float_less f Float_zero"

text \<open>\<open>y == 0\<close> and \<open>y != 0\<close> of C++ on a value of arithmetic type.\<close>

fun arith_eq_zero :: "arith \<Rightarrow> bool" where
  "arith_eq_zero (Integral i) = (i = 0)"
| "arith_eq_zero (Unsigned u) = (u = 0)"
| "arith_eq_zero (Floating f) = Float_eq f Float_zero"

definition arith_neq_zero :: "arith \<Rightarrow> bool" where
  "arith_neq_zero y = (\<not> arith_eq_zero y)"

fun arith_isnan :: "arith \<Rightarrow> bool" where
  "arith_isnan (Integral i) = False"
| "arith_isnan (Unsigned u) = False"
| "arith_isnan (Floating f) = Float_isnan f"

text \<open>\<^verbatim>\<open>static_cast<Float>(x)\<close>: an integral value is converted from its value.\<close>

fun static_cast_Float :: "arith \<Rightarrow> Float" where
  "static_cast_Float (Integral i) = Float_of_Int (sint i)"
| "static_cast_Float (Unsigned u) = Float_of_Int (uint u)"
| "static_cast_Float (Floating f) = f"

text \<open>
  \<^verbatim>\<open>
  template <typename T, typename = std::enable_if_t<std::is_integral_v<T>>>
  constexpr Number(T x) : base_type{ static_cast<Int>(x) } {}
  constexpr Number(Float x) : base_type{ x } {}
  \<close>
  \<^verbatim>\<open>static_cast<Int>(x)\<close> keeps the value of \<open>x\<close> where \<open>Int\<close> has it; an unsigned value
  from \<open>2^63\<close> on becomes the \<open>Int\<close> of the same 64 bits.
\<close>

fun Number_of :: "arith \<Rightarrow> Number" where
  "Number_of (Integral i) = Num_Int i"
| "Number_of (Unsigned u) = Num_Int u"
| "Number_of (Floating f) = Num_Float f"

text \<open>
  \<^verbatim>\<open>
  template <typename RE, typename IM>
  constexpr Number(RE x, IM y)
  {
      if (y > IM{ 0 } || y < IM{ 0 })
          *this = base_type{ Complex{ static_cast<Float>(x), static_cast<Float>(y) } };
      else
          *this = Number{ x };
  }
  \<close>
\<close>

definition Number_of_RE_IM :: "arith \<Rightarrow> arith \<Rightarrow> Number" where
  "Number_of_RE_IM x y =
     (if arith_greater_zero y \<or> arith_less_zero y
      then Num_Complex (static_cast_Float x) (static_cast_Float y)
      else Number_of x)"

text \<open>\<^verbatim>\<open>constexpr Number(const Complex& z) : Number{ z.real(), z.imag() } {}\<close>\<close>

definition Number_of_Complex :: "Complex \<Rightarrow> Number" where
  "Number_of_Complex z = Number_of_RE_IM (Floating (fst z)) (Floating (snd z))"

fun is_int :: "Number \<Rightarrow> bool" where
  "is_int (Num_Int _) = True"
| "is_int _ = False"

fun is_float :: "Number \<Rightarrow> bool" where
  "is_float (Num_Float _) = True"
| "is_float _ = False"

fun is_complex :: "Number \<Rightarrow> bool" where
  "is_complex (Num_Complex _ _) = True"
| "is_complex _ = False"

section \<open>Cells and the cell store\<close>

text \<open>
  Modelled from the spec: the declarations of \<open>Cell\<close>, \<open>Cons\<close>, \<open>Intern\<close> and of the
  accessors \<open>cons\<close>, \<open>car\<close>, \<open>cdr\<close>, \<open>set_car\<close>, \<open>set_cdr\<close>, \<open>is_pair\<close>, \<open>is_nil\<close>
  (types.hpp, cell.hpp) are not among the sources; the spec's section 3 describes them. A
  Cell is a tagged union with one alternative per variant. A pair cell holds the address
  of a \<open>Cons\<close> record \<open>(car, cdr, mark)\<close> in the store, a vector cell the address of a
  vector; pairs and vectors are shared and mutable. Two pair cells are equal when they
  hold the same address. The character type is the 8-bit \<open>char\<close> that platform.h selects
  (\<open>PLATFORM_CHAR\<close>), so a string is a list of bytes. Of a procedure, the sources read
  only \<open>is_macro\<close>.
\<close>

datatype Intern =
    intern_or | intern_and | intern_if | intern_cond | intern_else | intern_arrow
  | intern_when | intern_unless | intern_define | intern_setb | intern_begin
  | intern_lambda | intern_macro | intern_apply | intern_quote | intern_quasiquote
  | intern_unquote | intern_unquotesplice
  | op_cons | op_car | op_cdr | op_setcar | op_setcdr | op_list
  | op_add | op_sub | op_mul | op_div
  | op_other nat

type_synonym Symbol = string

datatype Cell =
    None_c
  | Nil_c
  | Bool_c bool
  | Char_c char
  | Number_c Number
  | Intern_c Intern
  | Symbol_c Symbol
  | String_c string
  | Regex_c string
  | Map_c nat
  | Symenv_c nat
  | Function_c string
  | Port_c nat
  | Clock_c nat
  | Procedure_c bool
  | Cons_c nat
  | Vector_c nat

type_synonym Cons = "Cell \<times> Cell \<times> bool"

text \<open>
  The interpreter state the sources reach through \<open>scm\<close> and the free accessors: the
  memory of Cons records with the number of records allocated so far, the memory of
  vectors, the table of interned symbols and the bindings of the root environment.
\<close>

record Scheme =
  conses :: "nat \<Rightarrow> Cons"
  ncons :: nat
  vectors :: "nat \<Rightarrow> Cell list"
  nvectors :: nat
  symtab :: "Symbol set"
  topenv :: "Symbol \<rightharpoonup> Cell"

datatype error =
    out_of_range
  | bad_variant_access
  | invalid_argument string
  | parse_error string
  | regex_error

fun is_pair :: "Cell \<Rightarrow> bool" where
  "is_pair (Cons_c _) = True"
| "is_pair _ = False"

fun is_nil :: "Cell \<Rightarrow> bool" where
  "is_nil Nil_c = True"
| "is_nil _ = False"

definition cons :: "Cell \<Rightarrow> Cell \<Rightarrow> Scheme \<Rightarrow> Cell \<times> Scheme" where
  "cons a d scm =
     (Cons_c (ncons scm),
      scm\<lparr>conses := (conses scm)(ncons scm := (a, d, False)), ncons := Suc (ncons scm)\<rparr>)"

fun car :: "Cell \<Rightarrow> Scheme \<Rightarrow> error + Cell" where
  "car (Cons_c a) scm = Inr (fst (conses scm a))"
| "car _ scm = Inl bad_variant_access"

fun cdr :: "Cell \<Rightarrow> Scheme \<Rightarrow> error + Cell" where
  "cdr (Cons_c a) scm = Inr (fst (snd (conses scm a)))"
| "cdr _ scm = Inl bad_variant_access"

fun set_car :: "Cell \<Rightarrow> Cell \<Rightarrow> Scheme \<Rightarrow> (error + unit) \<times> Scheme" where
  "set_car (Cons_c a) v scm =
     (Inr (), scm\<lparr>conses := (conses scm)(a := (v, snd (conses scm a)))\<rparr>)"
| "set_car _ v scm = (Inl bad_variant_access, scm)"

fun set_cdr :: "Cell \<Rightarrow> Cell \<Rightarrow> Scheme \<Rightarrow> (error + unit) \<times> Scheme" where
  "set_cdr (Cons_c a) v scm =
     (Inr (), scm\<lparr>conses := (conses scm)
        (a := (fst (conses scm a), v, snd (snd (conses scm a))))\<rparr>)"
| "set_cdr _ v scm = (Inl bad_variant_access, scm)"

text \<open>The conversion of a Cell to the Number it holds; any other variant throws.\<close>

fun Number_of_Cell :: "Cell \<Rightarrow> error + Number" where
  "Number_of_Cell (Number_c n) = Inr n"
| "Number_of_Cell _ = Inl bad_variant_access"

section \<open>Primitive operations (primop.cpp)\<close>

text \<open>
  The operators \<open>+=\<close>, \<open>-=\<close>, \<open>*=\<close> and \<open>/=\<close> on Numbers are declared in number.hpp and
  defined in number.cpp, which is not among the sources: the primitives take them as
  parameters. Each either gives a Number or throws.
\<close>

record Number_ops =
  plus_assign :: "Number \<Rightarrow> Number \<Rightarrow> error + Number"
  minus_assign :: "Number \<Rightarrow> Number \<Rightarrow> error + Number"
  times_assign :: "Number \<Rightarrow> Number \<Rightarrow> error + Number"
  divide_assign :: "Number \<Rightarrow> Number \<Rightarrow> error + Number"

text \<open>\<^verbatim>\<open>args.at(i)\<close> of a \<open>std::vector\<close>: throws \<open>std::out_of_range\<close> past the end.\<close>

definition at :: "'a list \<Rightarrow> nat \<Rightarrow> error + 'a" where
  "at xs i = (if i < length xs then Inr (xs ! i) else Inl out_of_range)"

text \<open>
  \<^verbatim>\<open>
  static Cell fun_list(const varg& args)
  {
      Cell list = nil;
      if (args.size()) {
          list = cons(args.front(), nil);
          Cell tail = list;
          for (auto iter = ++args.begin(); iter != args.end(); ++iter, tail = cdr(tail))
              set_cdr(tail, cons(*iter, nil));
      }
      return list;
  }
  \<close>
\<close>

fun fun_list_loop :: "Cell list \<Rightarrow> Cell \<Rightarrow> Scheme \<Rightarrow> (error + unit) \<times> Scheme" where
  "fun_list_loop [] tail scm = (Inr (), scm)"
| "fun_list_loop (x # xs) tail scm =
     (case cons x Nil_c scm of (c, scm1) \<Rightarrow>
      (case set_cdr tail c scm1 of
         (Inl e, scm2) \<Rightarrow> (Inl e, scm2)
       | (Inr _, scm2) \<Rightarrow>
          (case cdr tail scm2 of
             Inl e \<Rightarrow> (Inl e, scm2)
           | Inr tail' \<Rightarrow> fun_list_loop xs tail' scm2)))"

definition fun_list :: "Cell list \<Rightarrow> Scheme \<Rightarrow> (error + Cell) \<times> Scheme" where
  "fun_list args scm =
     (case args of
        [] \<Rightarrow> (Inr Nil_c, scm)
      | x # xs \<Rightarrow>
         (case cons x Nil_c scm of (list, scm1) \<Rightarrow>
          (case fun_list_loop xs list scm1 of
             (Inl e, scm2) \<Rightarrow> (Inl e, scm2)
           | (Inr _, scm2) \<Rightarrow> (Inr list, scm2))))"

text \<open>
  The loops of the four arithmetic primitives: \<open>res\<close> is updated with each remaining
  argument in turn, converted to a Number.
  \<^verbatim>\<open>
  static Cell fun_add(const varg& args)
  {
      Number res = 0;
      for (Number val : args)
          res += val;
      return res;
  }
  static Cell fun_sub(const varg& args)
  {
      Number res = args.at(0);
      for (auto iter = ++args.begin(); iter != args.end(); ++iter)
          res -= *iter;
      return res;
  }
  \<close>
  \<open>fun_mul\<close> is \<open>fun_add\<close> with \<open>res = 1\<close> and \<open>*=\<close>; \<open>fun_div\<close> is \<open>fun_sub\<close> with \<open>/=\<close>.
\<close>

fun accumulate ::
  "(Number \<Rightarrow> Number \<Rightarrow> error + Number) \<Rightarrow> Number \<Rightarrow> Cell list \<Rightarrow> error + Number" where
  "accumulate f res [] = Inr res"
| "accumulate f res (c # cs) =
     (case Number_of_Cell c of
        Inl e \<Rightarrow> Inl e
      | Inr val \<Rightarrow> (case f res val of Inl e \<Rightarrow> Inl e | Inr res' \<Rightarrow> accumulate f res' cs))"

definition fun_add :: "Number_ops \<Rightarrow> Cell list \<Rightarrow> error + Cell" where
  "fun_add ops args = map_sum id Number_c (accumulate (plus_assign ops) (Num_Int 0) args)"

definition fun_sub :: "Number_ops \<Rightarrow> Cell list \<Rightarrow> error + Cell" where
  "fun_sub ops args =
     (case at args 0 of
        Inl e \<Rightarrow> Inl e
      | Inr c \<Rightarrow>
         (case Number_of_Cell c of
            Inl e \<Rightarrow> Inl e
          | Inr res \<Rightarrow> map_sum id Number_c (accumulate (minus_assign ops) res (tl args))))"

definition fun_mul :: "Number_ops \<Rightarrow> Cell list \<Rightarrow> error + Cell" where
  "fun_mul ops args = map_sum id Number_c (accumulate (times_assign ops) (Num_Int 1) args)"

definition fun_div :: "Number_ops \<Rightarrow> Cell list \<Rightarrow> error + Cell" where
  "fun_div ops args =
     (case at args 0 of
        Inl e \<Rightarrow> Inl e
      | Inr c \<Rightarrow>
         (case Number_of_Cell c of
            Inl e \<Rightarrow> Inl e
          | Inr res \<Rightarrow> map_sum id Number_c (accumulate (divide_assign ops) res (tl args))))"

text \<open>
  \<^verbatim>\<open>
  Cell call(const Symenv& senv, Intern primop, const varg& args)
  {
      switch (primop) {
      case Intern::op_cons:   return cons(args.at(0), args.at(1));
      case Intern::op_car:    return car(args.at(0));
      case Intern::op_cdr:    return cdr(args.at(0));
      case Intern::op_setcar: set_car(args.at(0), args.at(1)); return none;
      case Intern::op_setcdr: set_cdr(args.at(0), args.at(1)); return none;
      case Intern::op_list:   return fun_list(args);
      case Intern::op_add:    return fun_add(args);
      case Intern::op_sub:    return fun_sub(args);
      case Intern::op_mul:    return fun_mul(args);
      case Intern::op_div:    return fun_div(args);
      default: throw std::invalid_argument("invalid primary operation");
      }
  }
  \<close>
  The call returns its result, or the exception thrown, with the state it leaves behind.
\<close>

definition at2 :: "Cell list \<Rightarrow> error + Cell \<times> Cell" where
  "at2 args =
     (case at args 0 of
        Inl e \<Rightarrow> Inl e
      | Inr a \<Rightarrow> (case at args 1 of Inl e \<Rightarrow> Inl e | Inr b \<Rightarrow> Inr (a, b)))"

fun call ::
  "Number_ops \<Rightarrow> nat \<Rightarrow> Intern \<Rightarrow> Cell list \<Rightarrow> Scheme \<Rightarrow> (error + Cell) \<times> Scheme" where
  "call ops senv op_cons args scm =
     (case at2 args of
        Inl e \<Rightarrow> (Inl e, scm)
      | Inr (a, b) \<Rightarrow> (case cons a b scm of (c, scm') \<Rightarrow> (Inr c, scm')))"
| "call ops senv op_car args scm =
     (case at args 0 of Inl e \<Rightarrow> (Inl e, scm) | Inr a \<Rightarrow> (car a scm, scm))"
| "call ops senv op_cdr args scm =
     (case at args 0 of Inl e \<Rightarrow> (Inl e, scm) | Inr a \<Rightarrow> (cdr a scm, scm))"
| "call ops senv op_setcar args scm =
     (case at2 args of
        Inl e \<Rightarrow> (Inl e, scm)
      | Inr (a, b) \<Rightarrow>
         (case set_car a b scm of
            (Inl e, scm') \<Rightarrow> (Inl e, scm')
          | (Inr _, scm') \<Rightarrow> (Inr None_c, scm')))"
| "call ops senv op_setcdr args scm =
     (case at2 args of
        Inl e \<Rightarrow> (Inl e, scm)
      | Inr (a, b) \<Rightarrow>
         (case set_cdr a b scm of
            (Inl e, scm') \<Rightarrow> (Inl e, scm')
          | (Inr _, scm') \<Rightarrow> (Inr None_c, scm')))"
| "call ops senv op_list args scm = fun_list args scm"
| "call ops senv op_add args scm = (fun_add ops args, scm)"
| "call ops senv op_sub args scm = (fun_sub ops args, scm)"
| "call ops senv op_mul args scm = (fun_mul ops args, scm)"
| "call ops senv op_div args scm = (fun_div ops args, scm)"
| "call ops senv _ args scm = (Inl (invalid_argument ''invalid primary operation''), scm)"

text \<open>
  The left-to-right sum (product) of a list of Numbers from a start value, as claim C9
  words it: the operator is applied to the running result and each number in turn, and
  the first exception ends it.
\<close>

fun left_to_right ::
  "(Number \<Rightarrow> Number \<Rightarrow> error + Number) \<Rightarrow> Number \<Rightarrow> Number list \<Rightarrow> error + Number" where
  "left_to_right f a [] = Inr a"
| "left_to_right f a (x # xs) =
     (case f a x of Inl e \<Rightarrow> Inl e | Inr a' \<Rightarrow> left_to_right f a' xs)"

text \<open>
  Modelled from the spec: \<open>operator+=\<close> and \<open>operator*=\<close> of number.cpp on two Ints, which
  the spec's scenario \<open>(+ 1 2 3) \<rightarrow> 6\<close> fixes; on any other pair of Numbers the operators
  \<open>other\<close> stand for the code that is not among the sources.
\<close>

definition Int_ops :: "Number_ops \<Rightarrow> Number_ops" where
  "Int_ops other =
     other\<lparr>
       plus_assign := (\<lambda>a b. case (a, b) of
          (Num_Int x, Num_Int y) \<Rightarrow> Inr (Num_Int (x + y)) | _ \<Rightarrow> plus_assign other a b),
       times_assign := (\<lambda>a b. case (a, b) of
          (Num_Int x, Num_Int y) \<Rightarrow> Inr (Num_Int (x * y)) | _ \<Rightarrow> times_assign other a b)\<rparr>"

section \<open>Printing numbers (number.hpp)\<close>

text \<open>
  The output stream's own formatting is the host library's. The printers take what they
  need of it as parameters: \<open>fmt_Float\<close> is what \<^verbatim>\<open>os << x\<close> writes for a \<open>double\<close> once
  \<^verbatim>\<open>std::scientific\<close> is set, \<open>fmt_pointer\<close> what it writes for a pointer, and
  \<open>fmt_Clock\<close> stands for the stream operator of \<open>Clock\<close>, which is not among the sources.
  An integer is written in decimal (the stream's default base).
\<close>

record ostream_fmt =
  fmt_Float :: "Float \<Rightarrow> string"
  fmt_pointer :: "nat \<Rightarrow> string"
  fmt_Clock :: "nat \<Rightarrow> string"

fun decimal :: "nat \<Rightarrow> string" where
  "decimal n =
     (if n < 10 then [char_of (48 + n)] else decimal (n div 10) @ [char_of (48 + n mod 10)])"

declare decimal.simps [simp del]

definition fmt_Int :: "Int_t \<Rightarrow> string" where
  "fmt_Int x = (if sint x < 0 then CHR ''-'' # decimal (nat (- sint x)) else decimal (nat (sint x)))"

text \<open>
  \<^verbatim>\<open>
  std::basic_ostream<CharT, Traits>& operator<<(std::basic_ostream<CharT, Traits>& os, const Complex& z)
  {
      if (auto im = z.imag(); im > 0 || im < 0) {
          if (im < 0) {
              os << z.real();
              if (im > -1 || im < -1)
                  return os << '-' << im << 'i';
              else
                  return os << "-i";
          } else if (im > 1 || im < 1)
              return os << z.real() << '+' << im << 'i';
          else
              return os << z.real() << "+i";
      } else
          return os << z.real();
  }
  \<close>
\<close>

definition write_Complex :: "ostream_fmt \<Rightarrow> Complex \<Rightarrow> string" where
  "write_Complex F z =
     (let im = snd z in
      if Float_greater im Float_zero \<or> Float_less im Float_zero then
        if Float_less im Float_zero then
          fmt_Float F (fst z) @
          (if Float_greater im Float_minus_one \<or> Float_less im Float_minus_one
           then ''-'' @ fmt_Float F im @ ''i''
           else ''-i'')
        else if Float_greater im Float_one \<or> Float_less im Float_one
        then fmt_Float F (fst z) @ ''+'' @ fmt_Float F im @ ''i''
        else fmt_Float F (fst z) @ ''+i''
      else fmt_Float F (fst z))"

text \<open>
  \<^verbatim>\<open>
  std::basic_ostream<CharT, Traits>& operator<<(std::basic_ostream<CharT, Traits>& os, const Number& num)
  {
      return std::visit([&os](auto x) -> decltype(os) {
          if constexpr (std::is_same_v<Int, decltype(x)>)
              return os << x;
          else
              return os << std::scientific << x;
      }, static_cast<Number::base_type>(num));
  }
  \<close>
\<close>

fun write_Number :: "ostream_fmt \<Rightarrow> Number \<Rightarrow> string" where
  "write_Number F (Num_Int x) = fmt_Int x"
| "write_Number F (Num_Float x) = fmt_Float F x"
| "write_Number F (Num_Complex re im) = write_Complex F (re, im)"

section \<open>The write printer (streamop.cpp)\<close>

text \<open>
  A printer returns the text it writes. Printing a pair or a vector prints the cells it
  holds, which may hold the pair or vector again: the recursion is bounded by a fuel
  parameter. An outcome is \<open>None\<close> when the fuel does not suffice, \<open>Some (Inl e)\<close> when the
  exception \<open>e\<close> is thrown and \<open>Some (Inr s)\<close> when the text \<open>s\<close> is written.
\<close>

type_synonym 'a outcome = "(error + 'a) option"

definition and_then :: "'a outcome \<Rightarrow> ('a \<Rightarrow> 'b outcome) \<Rightarrow> 'b outcome" where
  "and_then m f = (case m of None \<Rightarrow> None | Some (Inl e) \<Rightarrow> Some (Inl e) | Some (Inr x) \<Rightarrow> f x)"

definition emit :: "'a \<Rightarrow> 'a outcome" where
  "emit x = Some (Inr x)"

text \<open>
  \<^verbatim>\<open>
  static OSTREAM& operator<<(OSTREAM& os, const Symbol& sym)
  {
      const String& name = sym.value();
      if (name.find_first_of(' ') != String::npos)
          return os << '|' << name << '|';
      else
          return os << name;
  }
  \<close>
\<close>

definition write_Symbol :: "Symbol \<Rightarrow> string" where
  "write_Symbol name = (if CHR '' '' \<in> set name then ''|'' @ name @ ''|'' else name)"

fun write_Intern :: "Intern \<Rightarrow> string" where
  "write_Intern intern_or = ''or''"
| "write_Intern intern_and = ''and''"
| "write_Intern intern_if = ''if''"
| "write_Intern intern_cond = ''cond''"
| "write_Intern intern_else = ''else''"
| "write_Intern intern_arrow = ''=>''"
| "write_Intern intern_when = ''when''"
| "write_Intern intern_unless = ''unless''"
| "write_Intern intern_define = ''define''"
| "write_Intern intern_setb = ''set!''"
| "write_Intern intern_begin = ''begin''"
| "write_Intern intern_lambda = ''lambda''"
| "write_Intern intern_macro = ''define-macro''"
| "write_Intern intern_apply = ''apply''"
| "write_Intern intern_quote = ''quote''"
| "write_Intern intern_quasiquote = ''quasiquote''"
| "write_Intern intern_unquote = ''unquote''"
| "write_Intern intern_unquotesplice = ''unquote-splicing''"
| "write_Intern _ = ''#<primop>''"

definition write_Procedure :: "bool \<Rightarrow> string" where
  "write_Procedure is_macro = (if is_macro then ''#<macro>'' else ''#<clojure>'')"

text \<open>
  \<^verbatim>\<open>
  static OSTREAM& operator<<(OSTREAM& os, const VectorPtr& vptr)
  {
      if (vptr->size()) {
          os << "#(" << vptr->front();
          for (auto ip = vptr->begin() + 1, ie = vptr->end(); ip != ie; ++ip)
              os << ' ' << *ip;
          return os << ')';
      } else
          return os << "#()";
  }
  \<close>
  \<open>pr\<close> is the printer of the cells the vector holds.
\<close>

fun write_items :: "(Cell \<Rightarrow> string outcome) \<Rightarrow> Cell list \<Rightarrow> string outcome" where
  "write_items pr [] = emit []"
| "write_items pr (x # xs) =
     and_then (pr x) (\<lambda>s. and_then (write_items pr xs) (\<lambda>r. emit ('' '' @ s @ r)))"

definition write_Vector :: "(Cell \<Rightarrow> string outcome) \<Rightarrow> Cell list \<Rightarrow> string outcome" where
  "write_Vector pr xs =
     (case xs of
        [] \<Rightarrow> emit ''#()''
      | x # xs' \<Rightarrow>
          and_then (pr x) (\<lambda>s. and_then (write_items pr xs') (\<lambda>r. emit (''#('' @ s @ r @ '')''))))"

text \<open>
  \<^verbatim>\<open>
  static OSTREAM& operator<<(OSTREAM& os, Cons* cons)
  {
      Cell iter{ cons };

      os << '(' << car(iter);
      iter = cdr(iter);

      for (Cell slow{ iter }; is_pair(iter); iter = cdr(iter), slow = cdr(slow)) {
          os << ' ' << car(iter);

          if (!is_pair(iter = cdr(iter)) || slow == iter) {
              if (slow == iter)
                  return os << " ...)"; // circular list detected

              break;
          }
          os << ' ' << car(iter);
      }
      if (is_nil(iter))
          os << ')'; // list end
      else
          os << " . " << iter << ')'; // dotted pair end

      return os;
  }
  \<close>
  \<open>write_list_end\<close> is the code after the loop, \<open>write_list_loop\<close> the loop with its
  variables \<open>iter\<close> and \<open>slow\<close>, one unit of fuel for each round.
\<close>

definition write_list_end :: "(Cell \<Rightarrow> string outcome) \<Rightarrow> Cell \<Rightarrow> string outcome" where
  "write_list_end pr iter =
     (if is_nil iter then emit '')''
      else and_then (pr iter) (\<lambda>s. emit ('' . '' @ s @ '')'')))"

fun write_list_loop ::
  "(Cell \<Rightarrow> string outcome) \<Rightarrow> Scheme \<Rightarrow> nat \<Rightarrow> Cell \<Rightarrow> Cell \<Rightarrow> string outcome" where
  "write_list_loop pr scm 0 iter slow = None"
| "write_list_loop pr scm (Suc k) iter slow =
     (if is_pair iter then
        and_then (Some (car iter scm)) (\<lambda>a.
        and_then (pr a) (\<lambda>s1.
        and_then (Some (cdr iter scm)) (\<lambda>iter1.
          if \<not> is_pair iter1 \<or> slow = iter1 then
            if slow = iter1 then emit ('' '' @ s1 @ '' ...)'')
            else and_then (write_list_end pr iter1) (\<lambda>t. emit ('' '' @ s1 @ t))
          else
            and_then (Some (car iter1 scm)) (\<lambda>b.
            and_then (pr b) (\<lambda>s2.
            and_then (Some (cdr iter1 scm)) (\<lambda>iter2.
            and_then (Some (cdr slow scm)) (\<lambda>slow'.
            and_then (write_list_loop pr scm k iter2 slow') (\<lambda>r.
              emit ('' '' @ s1 @ '' '' @ s2 @ r)))))))))
      else write_list_end pr iter)"

declare write_list_loop.simps [simp del]

definition write_Cons ::
  "(Cell \<Rightarrow> string outcome) \<Rightarrow> Scheme \<Rightarrow> nat \<Rightarrow> Cell \<Rightarrow> string outcome" where
  "write_Cons pr scm k c =
     and_then (Some (car c scm)) (\<lambda>a.
     and_then (pr a) (\<lambda>s0.
     and_then (Some (cdr c scm)) (\<lambda>iter.
     and_then (write_list_loop pr scm k iter iter) (\<lambda>r.
       emit (''('' @ s0 @ r)))))"

text \<open>
  \<^verbatim>\<open>
  OSTREAM& operator<<(OSTREAM& os, const Cell& cell)
  {
      overloads stream{
          [&os](None)                   -> OSTREAM& { return os << "#<none>"; },
          [&os](Nil)                    -> OSTREAM& { return os << "()"; },
          [&os](Bool arg)               -> OSTREAM& { return os << (arg ? "#t" : "#f"); },
          [&os](Char arg)               -> OSTREAM& { return arg != static_cast<Char>(EOF) ?
                                                               (os << "#\\" << arg) : (os << "#\\eof"); },
          [&os](const StringPtr& arg)   -> OSTREAM& { return os << '"' << *arg << '"';},
          [&os](const RegexPtr&)        -> OSTREAM& { return os << "#<regex>"; },
          [&os](const MapPtr&)          -> OSTREAM& { return os << "#<dict>"; },
          [&os](const SymenvPtr& arg)   -> OSTREAM& { return os << "#<symenv " << arg.get() << '>'; },
          [&os](const FunctionPtr& arg) -> OSTREAM& { return os << "#<function " << arg->name() << '>'; },
          [&os](const PortPtr&)         -> OSTREAM& { return os << "#<port>"; },
          [&os](const ClockPtr& arg)    -> OSTREAM& { return os << "#<clock " << *arg << ">"; },
          [&os](auto& arg)              -> OSTREAM& { return os << arg; }
      };
      return std::visit(std::move(stream), static_cast<const Cell::base_type&>(cell));
  }
  \<close>
  \<open>EOF\<close> is -1, so \<^verbatim>\<open>static_cast<Char>(EOF)\<close> is the byte 255. The last alternative takes
  the Numbers, Symbols, pairs, vectors, opcodes and procedures to their own operators.
  One unit of fuel is used for each cell printed inside another, and the loop over a list
  gets the fuel that is left.
\<close>

definition Char_EOF :: char where
  "Char_EOF = CHR 0xFF"

fun write_Cell :: "ostream_fmt \<Rightarrow> nat \<Rightarrow> Scheme \<Rightarrow> Cell \<Rightarrow> string outcome" where
  "write_Cell F 0 scm c = None"
| "write_Cell F (Suc n) scm c =
     (case c of
        None_c \<Rightarrow> emit ''#<none>''
      | Nil_c \<Rightarrow> emit ''()''
      | Bool_c arg \<Rightarrow> emit (if arg then ''#t'' else ''#f'')
      | Char_c arg \<Rightarrow> emit (if arg \<noteq> Char_EOF then [CHR ''#'', CHR 0x5C, arg] else CHR ''#'' # CHR 0x5C # ''eof'')
      | String_c arg \<Rightarrow> emit ([CHR 0x22] @ arg @ [CHR 0x22])
      | Regex_c _ \<Rightarrow> emit ''#<regex>''
      | Map_c _ \<Rightarrow> emit ''#<dict>''
      | Symenv_c arg \<Rightarrow> emit (''#<symenv '' @ fmt_pointer F arg @ ''>'')
      | Function_c name \<Rightarrow> emit (''#<function '' @ name @ ''>'')
      | Port_c _ \<Rightarrow> emit ''#<port>''
      | Clock_c arg \<Rightarrow> emit (''#<clock '' @ fmt_Clock F arg @ ''>'')
      | Number_c arg \<Rightarrow> emit (write_Number F arg)
      | Symbol_c arg \<Rightarrow> emit (write_Symbol arg)
      | Intern_c arg \<Rightarrow> emit (write_Intern arg)
      | Procedure_c arg \<Rightarrow> emit (write_Procedure arg)
      | Cons_c _ \<Rightarrow> write_Cons (write_Cell F n scm) scm n c
      | Vector_c v \<Rightarrow> write_Vector (write_Cell F n scm) (vectors scm v))"

text \<open>
  \<^verbatim>\<open>
  static OSTREAM& operator<<(OSTREAM& os, const DisplayManip<StringPtr>& manip)
  {
      const StringPtr::element_type& str = *manip.value;

      for (auto cp = str.begin(), end = str.end(); cp != end; ++cp)
          if (*cp == '\\' && cp + 1 < end)
              switch (*(++cp)) {
              case 'a': os << '\a'; break;
              case 'b': os << '\b'; break;
              case 'n': os << '\n'; break;
              case 'r': os << '\r'; break;
              case 't': os << '\t'; break;
              default:  os << *cp;
              }
          else
              os << *cp;
      return os;
  }
  \<close>
\<close>

definition display_escape :: "char \<Rightarrow> char" where
  "display_escape c =
     (if c = CHR ''a'' then CHR 0x07
      else if c = CHR ''b'' then CHR 0x08
      else if c = CHR ''n'' then CHR 0x0A
      else if c = CHR ''r'' then CHR 0x0D
      else if c = CHR ''t'' then CHR 0x09
      else c)"

fun display_String :: "string \<Rightarrow> string" where
  "display_String [] = []"
| "display_String [c] = [c]"
| "display_String (c # d # cs) =
     (if c = CHR 0x5C then display_escape d # display_String cs
      else c # display_String (d # cs))"

text \<open>
  \<^verbatim>\<open>
  OSTREAM& operator<<(OSTREAM& os, DisplayManip<Cell> manip)
  {
      overloads stream{
          [](None)                    { },
          [&os](Char arg)             { os << arg; },
          [&os](const StringPtr& arg) { os << display(arg);},
          [&os, &manip](auto&)        { os << manip.value; }
      };
      std::visit(std::move(stream), static_cast<const Cell::base_type&>(manip.value));
      return os;
  }
  \<close>
\<close>

definition display_Cell :: "ostream_fmt \<Rightarrow> nat \<Rightarrow> Scheme \<Rightarrow> Cell \<Rightarrow> string outcome" where
  "display_Cell F n scm c =
     (case c of
        None_c \<Rightarrow> emit []
      | Char_c arg \<Rightarrow> emit [arg]
      | String_c arg \<Rightarrow> emit (display_String arg)
      | _ \<Rightarrow> write_Cell F n scm c)"

section \<open>Notions for the properties of the printer\<close>

text \<open>
  \<open>le_out a b\<close>: the outcome \<open>b\<close> is \<open>a\<close>, or \<open>a\<close> ran out of fuel.
\<close>

definition le_out :: "'a outcome \<Rightarrow> 'a outcome \<Rightarrow> bool" where
  "le_out a b = (a = None \<or> a = b)"

text \<open>
  The cdr chain of a cell: \<open>next_cell\<close> is the cdr of a pair and leaves any other cell
  as it is, \<open>nth_cdr scm i c\<close> is the cell \<open>i\<close> steps down the chain from \<open>c\<close>. The item
  the printer writes at a cell of the chain is the car of a pair, and the cell itself
  where the chain has ended. A list is cyclic when its chain never leaves the pairs.
\<close>

definition next_cell :: "Scheme \<Rightarrow> Cell \<Rightarrow> Cell" where
  "next_cell scm c = (case c of Cons_c a \<Rightarrow> fst (snd (conses scm a)) | _ \<Rightarrow> c)"

definition nth_cdr :: "Scheme \<Rightarrow> nat \<Rightarrow> Cell \<Rightarrow> Cell" where
  "nth_cdr scm i c = (next_cell scm ^^ i) c"

definition list_item :: "Scheme \<Rightarrow> Cell \<Rightarrow> Cell" where
  "list_item scm c = (case c of Cons_c a \<Rightarrow> fst (conses scm a) | _ \<Rightarrow> c)"

definition cyclic_list :: "Scheme \<Rightarrow> Cell \<Rightarrow> bool" where
  "cyclic_list scm c = (\<forall>i. is_pair (nth_cdr scm i c))"

text \<open>
  Round \<open>j\<close> of the printer's loop over the chain from \<open>x\<close> (with \<open>iter\<close> \<open>2 * j\<close> steps and
  \<open>slow\<close> \<open>j\<close> steps down) is the last: the chain has ended, or the two pointers meet.
\<close>

definition exit_at :: "Scheme \<Rightarrow> Cell \<Rightarrow> nat \<Rightarrow> bool" where
  "exit_at scm x j =
     (\<not> is_pair (nth_cdr scm (2 * j) x) \<or> \<not> is_pair (nth_cdr scm (2 * j + 1) x) \<or>
      nth_cdr scm j x = nth_cdr scm (2 * j + 1) x)"

text \<open>
  Pointers are addresses of records that \<open>cons\<close> has allocated: a pair cell is allocated
  when its address is below \<open>ncons\<close>, and the store is closed under cdr when the cdr of
  every allocated record is.
\<close>

definition allocated :: "Scheme \<Rightarrow> Cell \<Rightarrow> bool" where
  "allocated scm c = (case c of Cons_c a \<Rightarrow> a < ncons scm | _ \<Rightarrow> True)"

definition cdr_closed :: "Scheme \<Rightarrow> bool" where
  "cdr_closed scm = list_all (\<lambda>a. allocated scm (next_cell scm (Cons_c a))) [0..<ncons scm]"

text \<open>The printer writes the cell, given enough fuel.\<close>

definition prints :: "ostream_fmt \<Rightarrow> Scheme \<Rightarrow> Cell \<Rightarrow> bool" where
  "prints F scm c = (\<exists>n s. write_Cell F n scm c = Some (Inr s))"

text \<open>
  Two stores built with the primitives from the empty one. The first is the state after
  \<^verbatim>\<open>(define y (list 1)) (define x (list y)) (set-cdr! y x)\<close>: \<open>y\<close> is the record 0 and
  \<open>x\<close> the record 1, the cdr of \<open>y\<close> is \<open>x\<close> and the car of \<open>x\<close> is \<open>y\<close>. The second is the
  state after \<^verbatim>\<open>(define x (list 1)) (set-cdr! x x)\<close>: the record 0 is its own cdr.
\<close>

definition empty_Scheme :: Scheme where
  "empty_Scheme = \<lparr>conses = (\<lambda>_. (None_c, None_c, False)), ncons = 0,
     vectors = (\<lambda>_. []), nvectors = 0, symtab = {}, topenv = Map.empty\<rparr>"

definition one :: Cell where
  "one = Number_c (Num_Int 1)"

definition car_cycle_example :: "Number_ops \<Rightarrow> Scheme" where
  "car_cycle_example ops =
     (let scm1 = snd (call ops 0 op_list [one] empty_Scheme);
          scm2 = snd (call ops 0 op_list [Cons_c 0] scm1)
      in snd (call ops 0 op_setcdr [Cons_c 0, Cons_c 1] scm2))"

definition cdr_cycle_example :: "Number_ops \<Rightarrow> Scheme" where
  "cdr_cycle_example ops =
     (let scm1 = snd (call ops 0 op_list [one] empty_Scheme)
      in snd (call ops 0 op_setcdr [Cons_c 0, Cons_c 0] scm1))"

section \<open>Input streams and character classes (host library)\<close>

text \<open>
  The parser reads from a \<open>std::istream\<close>. Of the stream the model keeps the characters
  not yet read, the state bits \<open>eofbit\<close> and \<open>failbit\<close> and the format flag \<open>skipws\<close>
  (\<open>std::noskipws\<close> clears it); \<open>badbit\<close> is never set when reading from memory. The
  operations follow the C++ standard: an operation on a stream that is not \<open>good()\<close> sets
  \<open>failbit\<close> and reads nothing; reading at the end sets \<open>eofbit\<close> and \<open>failbit\<close>;
  \<open>putback\<close> clears \<open>eofbit\<close> first.

  The character classes are those of the \<open>"C"\<close> locale on the 8-bit \<open>char\<close>: a byte above
  127 is in no class and \<open>tolower\<close> leaves it as it is.
\<close>

record istream =
  buf :: string
  eofbit :: bool
  failbit :: bool
  skipws :: bool

definition good :: "istream \<Rightarrow> bool" where
  "good inp = (\<not> eofbit inp \<and> \<not> failbit inp)"

definition clear :: "istream \<Rightarrow> istream" where
  "clear inp = inp\<lparr>eofbit := False, failbit := False\<rparr>"

definition iswspace :: "char \<Rightarrow> bool" where
  "iswspace c = (c = CHR '' '' \<or> (9 \<le> (of_char c :: nat) \<and> (of_char c :: nat) \<le> 13))"

definition iswdigit :: "char \<Rightarrow> bool" where
  "iswdigit c = (48 \<le> (of_char c :: nat) \<and> (of_char c :: nat) \<le> 57)"

definition iswgraph :: "char \<Rightarrow> bool" where
  "iswgraph c = (33 \<le> (of_char c :: nat) \<and> (of_char c :: nat) \<le> 126)"

definition iswprint :: "char \<Rightarrow> bool" where
  "iswprint c = (32 \<le> (of_char c :: nat) \<and> (of_char c :: nat) \<le> 126)"

definition tolower :: "char \<Rightarrow> char" where
  "tolower c =
     (if 65 \<le> (of_char c :: nat) \<and> (of_char c :: nat) \<le> 90
      then char_of ((of_char c :: nat) + 32) else c)"

text \<open>
  \<^verbatim>\<open>strchr(s, c)\<close> as a truth value: \<open>c\<close> occurs in \<open>s\<close>, or \<open>c\<close> is the terminating
  NUL of \<open>s\<close>.
\<close>

definition strchr :: "string \<Rightarrow> char \<Rightarrow> bool" where
  "strchr s c = (c \<in> set s \<or> c = CHR 0x00)"

text \<open>\<^verbatim>\<open>in >> c\<close>: the character extracted, if any, and the stream after it.\<close>

definition read_char :: "istream \<Rightarrow> char option \<times> istream" where
  "read_char inp =
     (if \<not> good inp then (None, inp\<lparr>failbit := True\<rparr>)
      else
        (case (if skipws inp then dropWhile iswspace (buf inp) else buf inp) of
           [] \<Rightarrow> (None, inp\<lparr>buf := [], eofbit := True, failbit := True\<rparr>)
         | x # xs \<Rightarrow> (Some x, inp\<lparr>buf := xs\<rparr>)))"

text \<open>
  \<^verbatim>\<open>in.get()\<close> and \<^verbatim>\<open>in.peek()\<close> return an \<open>int\<close>: the character as an unsigned value,
  or \<open>EOF\<close>, which is -1.
\<close>

definition get :: "istream \<Rightarrow> int \<times> istream" where
  "get inp =
     (if \<not> good inp then (- 1, inp\<lparr>failbit := True\<rparr>)
      else
        (case buf inp of
           [] \<Rightarrow> (- 1, inp\<lparr>eofbit := True, failbit := True\<rparr>)
         | x # xs \<Rightarrow> (of_char x, inp\<lparr>buf := xs\<rparr>)))"

definition peek :: "istream \<Rightarrow> int \<times> istream" where
  "peek inp =
     (if \<not> good inp then (- 1, inp\<lparr>failbit := True\<rparr>)
      else
        (case buf inp of
           [] \<Rightarrow> (- 1, inp\<lparr>eofbit := True\<rparr>)
         | x # xs \<Rightarrow> (of_char x, inp)))"

definition putback :: "char \<Rightarrow> istream \<Rightarrow> istream" where
  "putback c inp =
     (if failbit inp then inp\<lparr>eofbit := False\<rparr>
      else inp\<lparr>eofbit := False, buf := c # buf inp\<rparr>)"

text \<open>\<^verbatim>\<open>in.ignore(std::numeric_limits<std::streamsize>::max(), '\n')\<close>\<close>

definition ignore_line :: "istream \<Rightarrow> istream" where
  "ignore_line inp =
     (if \<not> good inp then inp\<lparr>failbit := True\<rparr>
      else
        (case dropWhile (\<lambda>c. c \<noteq> CHR 0x0A) (buf inp) of
           [] \<Rightarrow> inp\<lparr>buf := [], eofbit := True\<rparr>
         | x # xs \<Rightarrow> inp\<lparr>buf := xs\<rparr>))"

text \<open>
  \<^verbatim>\<open>std::stoi(s)\<close>, base 10: leading white space, an optional sign, then decimal
  digits up to the first other character. It throws \<open>std::invalid_argument\<close> when there
  is no digit and \<open>std::out_of_range\<close> when the value is no \<open>int\<close> (32 bits).
\<close>

definition decimal_value :: "string \<Rightarrow> nat" where
  "decimal_value ds = foldl (\<lambda>v c. 10 * v + ((of_char c :: nat) - 48)) 0 ds"

definition stoi :: "string \<Rightarrow> error + int" where
  "stoi s =
     (let s1 = dropWhile iswspace s;
          signed = (s1 \<noteq> [] \<and> (hd s1 = CHR ''-'' \<or> hd s1 = CHR ''+''));
          ds = takeWhile iswdigit (if signed then tl s1 else s1);
          v = (if signed \<and> hd s1 = CHR ''-'' then - int (decimal_value ds)
               else int (decimal_value ds))
      in if ds = [] then Inl (invalid_argument ''stoi'')
         else if v < - 2147483648 \<or> 2147483647 < v then Inl out_of_range
         else Inr v)"

section \<open>The lexer (parser.cpp)\<close>

text \<open>
  The tokens, as parser.cpp names them (the enumeration itself is declared in
  parser.hpp, which is not among the sources).
\<close>

datatype Token =
    Tok_None | Tok_OBrace | Tok_CBrace | Tok_Comment | Tok_Quote | Tok_QuasiQuote
  | Tok_Unquote | Tok_UnquoteSplice | Tok_Dot | Tok_True | Tok_False | Tok_Char
  | Tok_String | Tok_Regex | Tok_Number | Tok_Symbol | Tok_Vector | Tok_Eof | Tok_Error

text \<open>
  \<^verbatim>\<open>
  Parser::Token Parser::lex_string(String& str, istream_type& in)
  {
      str.clear();
      Char c;

      while (in) {
          in >> std::noskipws >> c;
          switch (c) {

          case '"':
              return Token::String;

          case '\\':
              str.push_back('\\');
              in >> c;
              [[fallthrough]];

          default:
              if (iswprint(c))
                  str.push_back(static_cast<Char>(c));
              else
                  return Token::Error;
          }
      }
      return Token::Error;
  }
  \<close>
  An extraction that fails leaves \<open>c\<close> as it was. The variable is not initialised, so the
  model takes its first value \<open>c\<close> as an argument.
\<close>

definition stream_measure :: "istream \<Rightarrow> nat" where
  "stream_measure inp = 2 * length (buf inp) + (if failbit inp then 0 else 1)"

function lex_string_loop :: "string \<Rightarrow> char \<Rightarrow> istream \<Rightarrow> Token \<times> string \<times> istream" where
  "lex_string_loop str c inp =
     (if failbit inp then (Tok_Error, str, inp)
      else
        (case read_char (inp\<lparr>skipws := False\<rparr>) of (r1, in1) \<Rightarrow>
           let c1 = (case r1 of None \<Rightarrow> c | Some x \<Rightarrow> x) in
           if c1 = CHR 0x22 then (Tok_String, str, in1)
           else if c1 = CHR 0x5C then
             (case read_char in1 of (r2, in2) \<Rightarrow>
                let c2 = (case r2 of None \<Rightarrow> c1 | Some x \<Rightarrow> x) in
                if iswprint c2 then lex_string_loop (str @ [CHR 0x5C, c2]) c2 in2
                else (Tok_Error, str @ [CHR 0x5C], in2))
           else if iswprint c1 then lex_string_loop (str @ [c1]) c1 in1
           else (Tok_Error, str, in1)))"
  by pat_completeness auto

termination
  apply (relation "measure (\<lambda>(str, c, inp). stream_measure inp)")
    apply simp
   apply (auto simp: Let_def read_char_def stream_measure_def good_def
      split: if_splits list.splits)
  done

declare lex_string_loop.simps [simp del]

definition lex_string :: "char \<Rightarrow> istream \<Rightarrow> Token \<times> string \<times> istream" where
  "lex_string c inp = lex_string_loop [] c inp"

text \<open>
  \<^verbatim>\<open>
  Parser::Token Parser::lex_regex(String& str, istream_type& in)
  {
      if (str != MYL("#re") || in.get() != '\"')
          return Token::Error;
      if (lex_string(str, in) != Token::String)
          return Token::Error;
      return Token::Regex;
  }
  \<close>
\<close>

definition lex_regex :: "string \<Rightarrow> char \<Rightarrow> istream \<Rightarrow> Token \<times> string \<times> istream" where
  "lex_regex str c inp =
     (if str \<noteq> ''#re'' then (Tok_Error, str, inp)
      else
        (case get inp of (g, in1) \<Rightarrow>
           if g \<noteq> 34 then (Tok_Error, str, in1)
           else
             (case lex_string c in1 of (tok, str', in2) \<Rightarrow>
                if tok \<noteq> Tok_String then (Tok_Error, str', in2) else (Tok_Regex, str', in2))))"

text \<open>
  \<^verbatim>\<open>
  bool Parser::is_special(int c) { return strchr("()\"'`,;", c); }
  bool Parser::is_alpha(int c) { return iswgraph(c) && !iswdigit(c) && !is_special(c); }
  \<close>
\<close>

definition is_special :: "char \<Rightarrow> bool" where
  "is_special c =
     strchr [CHR ''('', CHR '')'', CHR 0x22, CHR 0x27, CHR 0x60, CHR '','', CHR '';''] c"

definition is_alpha :: "char \<Rightarrow> bool" where
  "is_alpha c = (iswgraph c \<and> \<not> iswdigit c \<and> \<not> is_special c)"

text \<open>
  \<^verbatim>\<open>
  Parser::Token Parser::lex_symbol(const String& str)
  {
      if (str.empty() || !is_alpha(str.front()))
          return Token::Error;
      for (auto c : str)
          if (!is_alpha(c) && !iswdigit(c))
              return Token::Error;
      return Token::Symbol;
  }
  \<close>
\<close>

definition lex_symbol :: "string \<Rightarrow> Token" where
  "lex_symbol str =
     (if str = [] \<or> \<not> is_alpha (hd str) then Tok_Error
      else if list_ex (\<lambda>c. \<not> is_alpha c \<and> \<not> iswdigit c) str then Tok_Error
      else Tok_Symbol)"

text \<open>
  The table \<open>stab\<close> of \<open>lex_char\<close>. Every name starts with \<open>#\<close> and a backslash. With the
  narrow character type \<open>MYL('x')\<close> is \<open>'x'\<close>, and a character outside ASCII between the
  quotes is the bytes of its UTF-8 encoding: a multi-character constant (the source
  switches the compiler's warning about them off), whose value has one byte per
  character, the first the most significant. \<open>EOF\<close> is -1.
\<close>

definition char_name :: "string \<Rightarrow> string" where
  "char_name s = CHR ''#'' # CHR 0x5C # s"

definition multichar :: "nat list \<Rightarrow> int" where
  "multichar bs = int (foldl (\<lambda>v b. v * 256 + b) 0 bs)"

definition stab :: "(string \<times> int) list" where
  "stab = [
    (char_name ''eof'', - 1),
    (char_name ''alarm'', 7),
    (char_name ''backspace'', 8),
    (char_name ''delete'', 0),
    (char_name ''escape'', 0),
    (char_name ''newline'', 10),
    (char_name ''null'', 0),
    (char_name ''return'', 13),
    (char_name ''space'', 32),
    (char_name ''tab'', 9),
    (char_name ''ae'', multichar [0xC3, 0xA4]),
    (char_name ''AE'', multichar [0xC3, 0x84]),
    (char_name ''ue'', multichar [0xC3, 0xBC]),
    (char_name ''UE'', multichar [0xC3, 0x9C]),
    (char_name ''oe'', multichar [0xC3, 0xB6]),
    (char_name ''OE'', multichar [0xC3, 0x96]),
    (char_name ''ss'', multichar [0xC3, 0x9F]),
    (char_name ''_0'', multichar [0xE2, 0x82, 0x80]),
    (char_name ''^0'', multichar [0xE2, 0x81, 0xB0]),
    (char_name ''_1'', multichar [0xE2, 0x82, 0x81]),
    (char_name ''^1'', multichar [0xC2, 0xB9]),
    (char_name ''_2'', multichar [0xE2, 0x82, 0x82]),
    (char_name ''^2'', multichar [0xC2, 0xB2]),
    (char_name ''_3'', multichar [0xE2, 0x82, 0x83]),
    (char_name ''^3'', multichar [0xC2, 0xB3]),
    (char_name ''_4'', multichar [0xE2, 0x82, 0x84]),
    (char_name ''^4'', multichar [0xE2, 0x81, 0xB4]),
    (char_name ''_5'', multichar [0xE2, 0x82, 0x85]),
    (char_name ''^5'', multichar [0xE2, 0x81, 0xB5]),
    (char_name ''_6'', multichar [0xE2, 0x82, 0x86]),
    (char_name ''^6'', multichar [0xE2, 0x81, 0xB6]),
    (char_name ''_7'', multichar [0xE2, 0x82, 0x87]),
    (char_name ''^7'', multichar [0xE2, 0x81, 0xB7]),
    (char_name ''_8'', multichar [0xE2, 0x82, 0x88]),
    (char_name ''^8'', multichar [0xE2, 0x81, 0xB8]),
    (char_name ''_9'', multichar [0xE2, 0x82, 0x89]),
    (char_name ''^9'', multichar [0xE2, 0x81, 0xB9]),
    (char_name ''alpha'', multichar [0xCE, 0xB1]),
    (char_name ''beta'', multichar [0xCE, 0xB2]),
    (char_name ''gamma'', multichar [0xCE, 0xB3]),
    (char_name ''Gamma'', multichar [0xCE, 0x93]),
    (char_name ''delta'', multichar [0xCE, 0xB4]),
    (char_name ''Delta'', multichar [0xCE, 0x94]),
    (char_name ''epsilon'', multichar [0xCE, 0xB5]),
    (char_name ''zeta'', multichar [0xCE, 0xB6]),
    (char_name ''eta'', multichar [0xCE, 0xB7]),
    (char_name ''theta'', multichar [0xCE, 0xB8]),
    (char_name ''iota'', multichar [0xCE, 0xB9]),
    (char_name ''kappa'', multichar [0xCE, 0xBA]),
    (char_name ''lambda'', multichar [0xCE, 0xBB]),
    (char_name ''mu'', multichar [0xCE, 0xBC]),
    (char_name ''nu'', multichar [0xCE, 0xBD]),
    (char_name ''xi'', multichar [0xCE, 0xBE]),
    (char_name ''Xi'', multichar [0xCE, 0x9E]),
    (char_name ''omicron'', multichar [0xCE, 0xBF]),
    (char_name ''pi'', multichar [0xCF, 0x80]),
    (char_name ''Pi'', multichar [0xCE, 0xA0]),
    (char_name ''rho'', multichar [0xCF, 0x81]),
    (char_name ''tau'', multichar [0xCF, 0x84]),
    (char_name ''sigma'', multichar [0xCF, 0x83]),
    (char_name ''Sigma'', multichar [0xCE, 0xA3]),
    (char_name ''upsilon'', multichar [0xCF, 0x85]),
    (char_name ''phi'', multichar [0xCF, 0x86]),
    (char_name ''Phi'', multichar [0xCE, 0xA6]),
    (char_name ''chi'', multichar [0xCF, 0x87]),
    (char_name ''psi'', multichar [0xCF, 0x88]),
    (char_name ''Psi'', multichar [0xCE, 0xA8]),
    (char_name ''omega'', multichar [0xCF, 0x89]),
    (char_name ''Omega'', multichar [0xCE, 0xA9]),
    (char_name ''le'', multichar [0xE2, 0x89, 0xA4]),
    (char_name ''ge'', multichar [0xE2, 0x89, 0xA5]),
    (char_name ''sim'', multichar [0xE2, 0x88, 0xBC]),
    (char_name ''simeq'', multichar [0xE2, 0x89, 0x83]),
    (char_name ''approx'', multichar [0xE2, 0x89, 0x88]),
    (char_name ''nabla'', multichar [0xE2, 0x88, 0x87]),
    (char_name ''nabla'', multichar [0xE2, 0x88, 0x87]),
    (char_name ''nabla'', multichar [0xE2, 0x88, 0x87]),
    (char_name ''sum'', multichar [0xE2, 0x88, 0x91]),
    (char_name ''prod'', multichar [0xE2, 0x88, 0x8F]),
    (char_name ''int'', multichar [0xE2, 0x88, 0xAB]),
    (char_name ''oint'', multichar [0xE2, 0x88, 0xAE]),
    (char_name ''pm'', multichar [0xC2, 0xB1]),
    (char_name ''div'', multichar [0xC3, 0xB7]),
    (char_name ''cdot'', multichar [0xC2, 0xB7]),
    (char_name ''star'', multichar [0xE2, 0x8B, 0x86]),
    (char_name ''circ'', multichar [0xE2, 0x88, 0x98]),
    (char_name ''bullet'', multichar [0xE2, 0x80, 0xA2]),
    (char_name ''diamond'', multichar [0xE2, 0x97, 0x87]),
    (char_name ''lhd'', multichar [0xE2, 0x97, 0x81]),
    (char_name ''rhd'', multichar [0xE2, 0x96, 0xB7]),
    (char_name ''trup'', multichar [0xE2, 0x96, 0xB3]),
    (char_name ''trdown'', multichar [0xE2, 0x96, 0xBD]),
    (char_name ''times'', multichar [0xC3, 0x97]),
    (char_name ''otimes'', multichar [0xE2, 0x8A, 0x97]),
    (char_name ''in'', multichar [0xE2, 0x88, 0x88]),
    (char_name ''notin'', multichar [0xE2, 0x88, 0x89]),
    (char_name ''subset'', multichar [0xE2, 0x8A, 0x82]),
    (char_name ''subseteq'', multichar [0xE2, 0x8A, 0x86]),
    (char_name ''in'', multichar [0xE2, 0x88, 0x88]),
    (char_name ''infty'', multichar [0xE2, 0x88, 0x9E])]"

text \<open>
  \<^verbatim>\<open>
  Parser::Token Parser::lex_char(const String& str, Char& c, istream_type& in)
  {
      constexpr struct { const Char* name; Int c; } stab[]{ ... };
      constexpr size_t ntab = sizeof(stab) / sizeof(*stab);

      if (str.size() == 2 && (std::isspace(in.peek()) || is_special(in.peek()))) {
          c = in.get();
          return Token::Char;
      }
      if (str.size() == 3) {
          c = str[2];
          return Token::Char;

      } else if (str.size() > 3 && str[2] == MYL('x')) {
          String s{ str.substr(1) };
          s[0] = MYL('0');
          c = static_cast<Char>(stoi(s));
          return Token::Char;
      } else {
          String name;
          transform(str.begin(), str.end(), back_inserter(name), ::tolower);

          for (size_t i = 0; i < ntab; ++i)
              if (stab[i].name == name) {
                  c = static_cast<Char>(stab[i].c);
                  return Token::Char;
              }
      }
      return Token::Error;
  }
  \<close>
  The conversion of an integer to \<open>Char\<close> keeps its low 8 bits (\<open>char_of\<close>). The result is
  the token or the exception of \<open>stoi\<close>, the value of \<open>c\<close> and the stream.
\<close>

definition isspace :: "int \<Rightarrow> bool" where
  "isspace p = (p = 32 \<or> (9 \<le> p \<and> p \<le> 13))"

definition peek_is_delimiter :: "istream \<Rightarrow> bool \<times> istream" where
  "peek_is_delimiter inp =
     (case peek inp of (p1, in1) \<Rightarrow>
        if isspace p1 then (True, in1)
        else (case peek in1 of (p2, in2) \<Rightarrow> (is_special (char_of p2), in2)))"

definition lex_char :: "string \<Rightarrow> char \<Rightarrow> istream \<Rightarrow> (error + Token) \<times> char \<times> istream" where
  "lex_char str c inp =
     (case (if length str = 2 then peek_is_delimiter inp else (False, inp)) of
        (True, in1) \<Rightarrow> (case get in1 of (g, in2) \<Rightarrow> (Inr Tok_Char, char_of g, in2))
      | (False, in1) \<Rightarrow>
          if length str = 3 then (Inr Tok_Char, str ! 2, in1)
          else if 3 < length str \<and> str ! 2 = CHR ''x'' then
            (case stoi (CHR ''0'' # drop 2 str) of
               Inl e \<Rightarrow> (Inl e, c, in1)
             | Inr v \<Rightarrow> (Inr Tok_Char, char_of v, in1))
          else
            (case map_of stab (map tolower str) of
               Some v \<Rightarrow> (Inr Tok_Char, char_of v, in1)
             | None \<Rightarrow> (Inr Tok_Error, c, in1)))"

text \<open>
  The parser object: the token put back, the token values \<open>strtok\<close>, \<open>numtok\<close> and
  \<open>chrtok\<close>, the symbols it holds (\<open>s_expr\<close> is the sentinel under which \<open>parse_list\<close>
  registers a list) and the interpreter \<open>scm\<close> it builds cells in (the field \<open>scm_ref\<close>: the member is
  a reference to the interpreter).
\<close>

record Parser =
  put_back :: Token
  strtok :: string
  numtok :: Number
  chrtok :: char
  s_quote :: Cell
  s_quasiquote :: Cell
  s_unquote :: Cell
  s_unquotesplice :: Cell
  s_expr :: Symbol
  scm_ref :: Scheme

text \<open>
  What the parser uses and the model does not define. \<open>lex_number\<close> is the numeric
  lexer of parser.cpp, which rests on \<open>strtod\<close>, \<open>std::stod\<close> and \<open>std::stol\<close> of the host
  library: given the lexeme and \<open>numtok\<close> it gives a token or an exception, and the new
  \<open>numtok\<close>. \<open>trunc\<close> is declared in number.hpp and defined in number.cpp. \<open>regex_ok\<close>
  says whether \<open>std::regex\<close> accepts a pattern. \<open>uninitialised\<close> is the value of the
  uninitialised variable \<open>c\<close> of \<open>lex_string\<close>.
\<close>

record Parser_ext =
  lex_number :: "string \<Rightarrow> Number \<Rightarrow> (error + Token) \<times> Number"
  trunc :: "Number \<Rightarrow> Number"
  regex_ok :: "string \<Rightarrow> bool"
  uninitialised :: char

text \<open>
  \<^verbatim>\<open>
  Parser::Token Parser::lex_special(String& str, istream_type& in)
  {
      if (str == MYL("#"))
          return Token::Vector;

      Token tok;

      switch (str.at(1)) {
      case 't':
          if (str == MYL("#t") || str == MYL("#true"))
              return Token::True;
          [[fallthrough]];

      case 'f':
          if (str == MYL("#f") || str == MYL("#false"))
              return Token::False;
          [[fallthrough]];

      case '\\':
          return lex_char(str, chrtok, in);

      case 'e':
          tok = lex_number(str.substr(2), numtok);
          if (tok == Token::Number)
              numtok = trunc(numtok);
          return tok;

      case 'i':
          return lex_number(str.substr(2), numtok);

      case 'r':
          return lex_regex(str, in);

      default:
          return Token::Error;
      }
  }
  \<close>
  \<open>str\<close> is \<open>strtok\<close>.
\<close>

definition call_lex_char :: "Parser \<Rightarrow> istream \<Rightarrow> (error + Token) \<times> Parser \<times> istream" where
  "call_lex_char P inp =
     (case lex_char (strtok P) (chrtok P) inp of (r, c, in1) \<Rightarrow> (r, P\<lparr>chrtok := c\<rparr>, in1))"

definition lex_special ::
  "Parser_ext \<Rightarrow> Parser \<Rightarrow> istream \<Rightarrow> (error + Token) \<times> Parser \<times> istream" where
  "lex_special X P inp =
     (if strtok P = ''#'' then (Inr Tok_Vector, P, inp)
      else
        (case at (strtok P) 1 of
           Inl e \<Rightarrow> (Inl e, P, inp)
         | Inr c1 \<Rightarrow>
            if c1 = CHR ''t'' \<and> (strtok P = ''#t'' \<or> strtok P = ''#true'')
            then (Inr Tok_True, P, inp)
            else if (c1 = CHR ''t'' \<or> c1 = CHR ''f'') \<and> (strtok P = ''#f'' \<or> strtok P = ''#false'')
            then (Inr Tok_False, P, inp)
            else if c1 = CHR ''t'' \<or> c1 = CHR ''f'' \<or> c1 = CHR 0x5C
            then call_lex_char P inp
            else if c1 = CHR ''e'' then
              (case lex_number X (drop 2 (strtok P)) (numtok P) of
                 (Inl e, num) \<Rightarrow> (Inl e, P\<lparr>numtok := num\<rparr>, inp)
               | (Inr tok, num) \<Rightarrow>
                   (Inr tok, P\<lparr>numtok := (if tok = Tok_Number then trunc X num else num)\<rparr>, inp))
            else if c1 = CHR ''i'' then
              (case lex_number X (drop 2 (strtok P)) (numtok P) of
                 (r, num) \<Rightarrow> (r, P\<lparr>numtok := num\<rparr>, inp))
            else if c1 = CHR ''r'' then
              (case lex_regex (strtok P) (uninitialised X) inp of
                 (tok, str, in1) \<Rightarrow> (Inr tok, P\<lparr>strtok := str\<rparr>, in1))
            else (Inr Tok_Error, P, inp)))"

text \<open>
  \<^verbatim>\<open>
  Parser::Token Parser::lex_unquote(const String& str, istream_type& in)
  {
      if (str.size() != 1)
          return Token::Error;
      if (in.peek() == '@') {
          in.get();
          return Token::UnquoteSplice;
      }
      return Token::Unquote;
  }

  Parser::Token Parser::skip_comment(istream_type& in) const
  {
      in.ignore(std::numeric_limits<std::streamsize>::max(), '\n');
      return Token::Comment;
  }
  \<close>
\<close>

definition lex_unquote :: "string \<Rightarrow> istream \<Rightarrow> Token \<times> istream" where
  "lex_unquote str inp =
     (if length str \<noteq> 1 then (Tok_Error, inp)
      else
        (case peek inp of (p, in1) \<Rightarrow>
           if p = 64 then (Tok_UnquoteSplice, snd (get in1)) else (Tok_Unquote, in1)))"

definition skip_comment :: "istream \<Rightarrow> Token \<times> istream" where
  "skip_comment inp = (Tok_Comment, ignore_line inp)"

text \<open>
  \<^verbatim>\<open>
  bool Parser::is_digit(const String& str, size_t n)
  {
      n = n ? std::min(n, str.size()) : str.size();

      bool has_digit = iswdigit(str.front()),
           has_sign = strchr("+-", str.front()),
           has_imag = false;

      if (str.empty() || (str.size() == 1 && !has_digit))
          return false;
      else
          for (auto ic = str.begin(), ie = ic + n; ic != ie; ++ic) {
              if (!has_digit)
                  has_digit = iswdigit(*ic);

              if (!has_imag)
                  has_imag = strchr("iI", *ic);

              if (!iswdigit(*ic) && !strchr("+-.iIeE", *ic))
                  return false;
          }
      return has_digit || (str.size() <= 2 && (has_sign || has_imag));
  }
  \<close>
\<close>

fun is_digit_loop :: "string \<Rightarrow> bool \<Rightarrow> bool \<Rightarrow> bool \<Rightarrow> nat \<Rightarrow> bool" where
  "is_digit_loop [] has_digit has_imag has_sign size_str =
     (has_digit \<or> (size_str \<le> 2 \<and> (has_sign \<or> has_imag)))"
| "is_digit_loop (c # cs) has_digit has_imag has_sign size_str =
     (if \<not> iswdigit c \<and> \<not> strchr ''+-.iIeE'' c then False
      else is_digit_loop cs (if \<not> has_digit then iswdigit c else has_digit)
             (if \<not> has_imag then strchr ''iI'' c else has_imag) has_sign size_str)"

definition is_digit :: "string \<Rightarrow> nat \<Rightarrow> bool" where
  "is_digit str n =
     (if str = [] \<or> (length str = 1 \<and> \<not> iswdigit (hd str)) then False
      else is_digit_loop (take (if n \<noteq> 0 then min n (length str) else length str) str)
             (iswdigit (hd str)) False (strchr ''+-'' (hd str)) (length str))"

text \<open>
  \<^verbatim>\<open>
  Parser::Token Parser::get_token(istream_type& in)
  {
      // Check if there is a put-back token available:
      if (put_back != Token::None) {
          Token tok = put_back;
          put_back = Token::None;
          return tok;
      }
      // Ignore all leading whitespaces:
      Char c;
      while (in >> c && iswspace(c))
          ;

      if (!in.good())
          return in.eof() ? Token::Eof : Token::Error;

      strtok.clear();
      strtok.push_back(static_cast<Char>(c));

      // Read chars until a trailing whitespace, a special scheme character or EOF is reached:
      if (!is_special(c)) {
          while (in >> std::noskipws >> c && !iswspace(c) && !is_special(c))
              strtok.push_back(static_cast<Char>(c));

          if (!in.good() && !in.eof())
              return Token::Error;

          //in.unget();
          in.putback(c);
      }
      // Lexical analyse token string according to the first character:
      switch (c = strtok.front()) {
      case '(':  return Token::OBrace;
      case ')':  return Token::CBrace;
      case '\'': return Token::Quote;
      case '`':  return Token::QuasiQuote;
      case ',':  return lex_unquote(strtok, in);
      case ';':  return skip_comment(in);
      case '#':  return lex_special(strtok, in);
      case '"':  return lex_string(strtok, in);
      case '.':
          if (strtok.size() == 1)
              return Token::Dot;
          [[fallthrough]];
      default:
          if (is_digit(strtok, 2))
              return lex_number(strtok, numtok);
          else
              return lex_symbol(strtok);
      }
  }
  \<close>
  \<open>skip_spaces\<close> is the first loop and \<open>read_lexeme\<close> the second; each gives the last
  character extracted, if any, and the stream.
\<close>

function skip_spaces :: "istream \<Rightarrow> char option \<times> istream" where
  "skip_spaces inp =
     (case read_char inp of
        (None, in1) \<Rightarrow> (None, in1)
      | (Some x, in1) \<Rightarrow> if iswspace x then skip_spaces in1 else (Some x, in1))"
  by pat_completeness auto
termination
proof (relation "measure stream_measure", simp, simp)
  fix inp y x2
  assume a: "(Some x2, y) = read_char inp"
  have "length (dropWhile iswspace (buf inp)) \<le> length (buf inp)"
    by (rule length_dropWhile_le)
  with a [symmetric] show "stream_measure y < stream_measure inp"
    by (auto simp: read_char_def stream_measure_def split: if_splits list.splits)
qed

declare skip_spaces.simps [simp del]

function read_lexeme :: "string \<Rightarrow> char \<Rightarrow> istream \<Rightarrow> string \<times> char \<times> istream" where
  "read_lexeme str c inp =
     (case read_char (inp\<lparr>skipws := False\<rparr>) of
        (None, in1) \<Rightarrow> (str, c, in1)
      | (Some x, in1) \<Rightarrow>
          if \<not> iswspace x \<and> \<not> is_special x then read_lexeme (str @ [x]) x in1
          else (str, x, in1))"
  by pat_completeness auto
termination
proof (relation "measure (\<lambda>(str, c, inp). stream_measure inp)", simp, simp)
  fix inp y x2
  assume a: "(Some x2, y) = read_char (inp\<lparr>skipws := False\<rparr>)"
  from a [symmetric] show "stream_measure y < stream_measure inp"
    by (auto simp: read_char_def stream_measure_def good_def split: if_splits list.splits)
qed

declare read_lexeme.simps [simp del]

definition dispatch_token ::
  "Parser_ext \<Rightarrow> Parser \<Rightarrow> istream \<Rightarrow> (error + Token) \<times> Parser \<times> istream" where
  "dispatch_token X P inp =
     (let c = hd (strtok P) in
      if c = CHR ''('' then (Inr Tok_OBrace, P, inp)
      else if c = CHR '')'' then (Inr Tok_CBrace, P, inp)
      else if c = CHR 0x27 then (Inr Tok_Quote, P, inp)
      else if c = CHR 0x60 then (Inr Tok_QuasiQuote, P, inp)
      else if c = CHR '','' then
        (case lex_unquote (strtok P) inp of (tok, in1) \<Rightarrow> (Inr tok, P, in1))
      else if c = CHR '';'' then
        (case skip_comment inp of (tok, in1) \<Rightarrow> (Inr tok, P, in1))
      else if c = CHR ''#'' then lex_special X P inp
      else if c = CHR 0x22 then
        (case lex_string (uninitialised X) inp of
           (tok, str, in1) \<Rightarrow> (Inr tok, P\<lparr>strtok := str\<rparr>, in1))
      else if c = CHR ''.'' \<and> length (strtok P) = 1 then (Inr Tok_Dot, P, inp)
      else if is_digit (strtok P) 2 then
        (case lex_number X (strtok P) (numtok P) of (r, num) \<Rightarrow> (r, P\<lparr>numtok := num\<rparr>, inp))
      else (Inr (lex_symbol (strtok P)), P, inp))"

definition get_token ::
  "Parser_ext \<Rightarrow> Parser \<Rightarrow> istream \<Rightarrow> (error + Token) \<times> Parser \<times> istream" where
  "get_token X P inp =
     (if put_back P \<noteq> Tok_None then (Inr (put_back P), P\<lparr>put_back := Tok_None\<rparr>, inp)
      else
        (case skip_spaces inp of (r, in1) \<Rightarrow>
           if \<not> good in1 then (Inr (if eofbit in1 then Tok_Eof else Tok_Error), P, in1)
           else
             (case r of
                None \<Rightarrow> (Inr Tok_Error, P, in1)
              | Some c \<Rightarrow>
                  if is_special c then dispatch_token X (P\<lparr>strtok := [c]\<rparr>) in1
                  else
                    (case read_lexeme [c] c in1 of (str, c', in2) \<Rightarrow>
                       if \<not> good in2 \<and> \<not> eofbit in2 then (Inr Tok_Error, P\<lparr>strtok := str\<rparr>, in2)
                       else dispatch_token X (P\<lparr>strtok := str\<rparr>) (putback c' in2)))))"

section \<open>The parser (parser.cpp)\<close>

text \<open>
  Modelled from the spec: the members of the interpreter that the parser calls
  (\<open>scm.list\<close>, \<open>scm.symbol\<close>, \<open>scm.addenv\<close>) and the constructors \<open>vec\<close>, \<open>str\<close> and
  \<open>regex\<close> are not among the sources. \<open>scm.list(a, b)\<close> is the list of \<open>a\<close> and \<open>b\<close>;
  \<open>scm.symbol\<close> interns a name; \<open>addenv(sym, val)\<close> binds \<open>sym\<close> to \<open>val\<close> in the root
  environment, replacing an earlier binding; \<open>vec(0, none)\<close> is a new empty vector.
\<close>

definition scm_list2 :: "Cell \<Rightarrow> Cell \<Rightarrow> Scheme \<Rightarrow> Cell \<times> Scheme" where
  "scm_list2 a b s = (case cons b Nil_c s of (t, s1) \<Rightarrow> cons a t s1)"

definition scm_symbol :: "string \<Rightarrow> Scheme \<Rightarrow> Cell \<times> Scheme" where
  "scm_symbol name s = (Symbol_c name, s\<lparr>symtab := insert name (symtab s)\<rparr>)"

definition addenv :: "Symbol \<Rightarrow> Cell \<Rightarrow> Scheme \<Rightarrow> Scheme" where
  "addenv key val s = s\<lparr>topenv := (topenv s)(key \<mapsto> val)\<rparr>"

definition vec_new :: "Scheme \<Rightarrow> nat \<times> Scheme" where
  "vec_new s =
     (nvectors s, s\<lparr>vectors := (vectors s)(nvectors s := []), nvectors := Suc (nvectors s)\<rparr>)"

definition push_back :: "nat \<Rightarrow> Cell \<Rightarrow> Scheme \<Rightarrow> Scheme" where
  "push_back v x s = s\<lparr>vectors := (vectors s)(v := vectors s v @ [x])\<rparr>"

text \<open>
  The results of the parser: the cell read or the exception thrown, with the parser and
  the stream as they are left. The mutual recursion of \<open>read\<close>, \<open>parse_list\<close> and
  \<open>parse_vector\<close> is bounded by a fuel parameter, one unit for each call and each round
  of a loop; \<open>None\<close> says that the fuel did not suffice.
\<close>

type_synonym parsed = "((error + Cell) \<times> Parser \<times> istream) option"

text \<open>\<open>scm.list(sym, read(in))\<close> for the four quotation tokens: \<open>r\<close> is the result of
  \<open>read(in)\<close>.\<close>

definition quoted :: "Cell \<Rightarrow> parsed \<Rightarrow> parsed" where
  "quoted q r =
     (case r of
        None \<Rightarrow> None
      | Some (Inl e, P, inp) \<Rightarrow> Some (Inl e, P, inp)
      | Some (Inr x, P, inp) \<Rightarrow>
          (case scm_list2 q x (scm_ref P) of (c, s) \<Rightarrow> Some (Inr c, P\<lparr>scm_ref := s\<rparr>, inp)))"

text \<open>
  The \<open>default\<close> branch of the loop of \<open>parse_list\<close>, after \<open>cell = read(in)\<close>:
  \<^verbatim>\<open>
  if (is_pair(tail)) {
      set_cdr(tail, scm.cons(cell, nil));
      tail = cdr(tail);
  } else {
      list = tail = scm.cons(cell, nil);
      scm.addenv(s_expr, list); // add list to env to prevent gc from deleting it.
  }
  \<close>
  It gives the new values of \<open>list\<close> and \<open>tail\<close>.
\<close>

definition parse_list_item ::
  "Cell \<Rightarrow> Cell \<Rightarrow> Cell \<Rightarrow> Parser \<Rightarrow> (error + Cell \<times> Cell) \<times> Parser" where
  "parse_list_item cell list tail P =
     (case cons cell Nil_c (scm_ref P) of (c, s1) \<Rightarrow>
        if is_pair tail then
          (case set_cdr tail c s1 of
             (Inl e, s2) \<Rightarrow> (Inl e, P\<lparr>scm_ref := s2\<rparr>)
           | (Inr _, s2) \<Rightarrow>
               (case cdr tail s2 of
                  Inl e \<Rightarrow> (Inl e, P\<lparr>scm_ref := s2\<rparr>)
                | Inr tail' \<Rightarrow> (Inr (list, tail'), P\<lparr>scm_ref := s2\<rparr>)))
        else (Inr (c, c), P\<lparr>scm_ref := addenv (s_expr P) c s1\<rparr>))"

text \<open>The end of a dotted list: \<^verbatim>\<open>set_cdr(tail, cell); return list;\<close>\<close>

definition parse_list_dot :: "Cell \<Rightarrow> Cell \<Rightarrow> Cell \<Rightarrow> Parser \<Rightarrow> istream \<Rightarrow> parsed" where
  "parse_list_dot cell list tail P inp =
     (case set_cdr tail cell (scm_ref P) of
        (Inl e, s) \<Rightarrow> Some (Inl e, P\<lparr>scm_ref := s\<rparr>, inp)
      | (Inr _, s) \<Rightarrow> Some (Inr list, P\<lparr>scm_ref := s\<rparr>, inp))"

text \<open>
  \<^verbatim>\<open>
  Cell Parser::read(istream_type& in)
  {
      in.clear();
      for (;;)
          switch (get_token(in)) {
          case Token::Comment:       break;
          case Token::True:          return true;
          case Token::False:         return false;
          case Token::Char:          return chrtok;
          case Token::Quote:         return scm.list(s_quote, read(in));
          case Token::QuasiQuote:    return scm.list(s_quasiquote, read(in));
          case Token::Unquote:       return scm.list(s_unquote, read(in));
          case Token::UnquoteSplice: return scm.list(s_unquotesplice, read(in));
          case Token::Number:        return numtok;
          case Token::String:        return str(strtok);
          case Token::Regex:         return regex(strtok);
          case Token::Symbol:        return scm.symbol(strtok);
          case Token::Vector:        return parse_vector(in);
          case Token::OBrace:        return parse_list(in);
          case Token::Eof:           return static_cast<Char>(EOF);
          case Token::Error:
          default:
              throw parse_error("invalid token");
          }
  }

  Cell Parser::parse_vector(istream_type& in)
  {
      VectorPtr vptr = vec(0, none);
      Token tok = get_token(in);

      if (tok == Token::OBrace)
          while (in.good()) {
              switch (tok = get_token(in)) {
              case Token::Comment:
                  break;
              case Token::CBrace:
                  return vptr;
              case Token::Eof:
              case Token::Error:
                  goto error;
              default:
                  put_back = tok;
                  vptr->push_back(read(in));
              }
          }
  error:
      throw parse_error("error while reading vector");
  }

  Cell Parser::parse_list(istream_type& in)
  {
      Cell list = nil, tail = nil;
      Cell cell;
      Token tok;

      while (in.good()) {
          switch (tok = get_token(in)) {
          case Token::Comment:
              break;
          case Token::CBrace:
              return list;

          case Token::Dot:
              cell = read(in);
              tok = get_token(in);

              if (tok == Token::CBrace) {
                  set_cdr(tail, cell);
                  return list;
              }
              [[fallthrough]];
          case Token::Eof:
          case Token::Error:
              goto error;

          default:
              put_back = tok;
              cell = read(in);

              if (is_pair(tail)) {
                  set_cdr(tail, scm.cons(cell, nil));
                  tail = cdr(tail);
              } else {
                  list = tail = scm.cons(cell, nil);
                  scm.addenv(s_expr, list); // add list to env to prevent gc from deleting it.
              }
          }
      }
  error:
      throw parse_error("error while reading list");
  }
  \<close>
  The three functions call each other; \<open>parse\<close> holds their bodies, one per
  \<open>parse_call\<close>: \<open>Read_token\<close> is the loop of \<open>read\<close> (after \<open>in.clear()\<close>),
  \<open>Parse_vector\<close> is \<open>parse_vector\<close> up to its loop, \<open>Parse_vector_loop v\<close> the loop of
  \<open>parse_vector\<close> with its vector \<open>v\<close>, and \<open>Parse_list_loop list tail\<close> the loop of
  \<open>parse_list\<close> with its variables. The functions themselves are defined from it below.
\<close>

datatype parse_call = Read_token | Parse_vector | Parse_vector_loop nat | Parse_list_loop Cell Cell

primrec parse :: "Parser_ext \<Rightarrow> nat \<Rightarrow> parse_call \<Rightarrow> Parser \<Rightarrow> istream \<Rightarrow> parsed" where
  "parse X 0 k P inp = None"
| "parse X (Suc n) k P inp =
    (case k of
      Read_token \<Rightarrow>
     (case get_token X P inp of
        (Inl e, P1, in1) \<Rightarrow> Some (Inl e, P1, in1)
      | (Inr tok, P1, in1) \<Rightarrow>
          if tok = Tok_Comment then parse X n Read_token P1 in1
          else if tok = Tok_True then Some (Inr (Bool_c True), P1, in1)
          else if tok = Tok_False then Some (Inr (Bool_c False), P1, in1)
          else if tok = Tok_Char then Some (Inr (Char_c (chrtok P1)), P1, in1)
          else if tok = Tok_Quote then quoted (s_quote P1) (parse X n Read_token P1 (clear in1))
          else if tok = Tok_QuasiQuote then quoted (s_quasiquote P1) (parse X n Read_token P1 (clear in1))
          else if tok = Tok_Unquote then quoted (s_unquote P1) (parse X n Read_token P1 (clear in1))
          else if tok = Tok_UnquoteSplice
          then quoted (s_unquotesplice P1) (parse X n Read_token P1 (clear in1))
          else if tok = Tok_Number then Some (Inr (Number_c (numtok P1)), P1, in1)
          else if tok = Tok_String then Some (Inr (String_c (strtok P1)), P1, in1)
          else if tok = Tok_Regex then
            (if regex_ok X (strtok P1) then Some (Inr (Regex_c (strtok P1)), P1, in1)
             else Some (Inl regex_error, P1, in1))
          else if tok = Tok_Symbol then
            (case scm_symbol (strtok P1) (scm_ref P1) of
               (c, s) \<Rightarrow> Some (Inr c, P1\<lparr>scm_ref := s\<rparr>, in1))
          else if tok = Tok_Vector then parse X n Parse_vector P1 in1
          else if tok = Tok_OBrace then parse X n (Parse_list_loop Nil_c Nil_c) P1 in1
          else if tok = Tok_Eof then Some (Inr (Char_c Char_EOF), P1, in1)
          else Some (Inl (parse_error ''invalid token''), P1, in1))
    | Parse_vector \<Rightarrow>
     (case vec_new (scm_ref P) of (v, s) \<Rightarrow>
        (case get_token X (P\<lparr>scm_ref := s\<rparr>) inp of
           (Inl e, P1, in1) \<Rightarrow> Some (Inl e, P1, in1)
         | (Inr tok, P1, in1) \<Rightarrow>
             if tok = Tok_OBrace then parse X n (Parse_vector_loop v) P1 in1
             else Some (Inl (parse_error ''error while reading vector''), P1, in1)))
    | Parse_vector_loop v \<Rightarrow>
     (if \<not> good inp then Some (Inl (parse_error ''error while reading vector''), P, inp)
      else
        (case get_token X P inp of
           (Inl e, P1, in1) \<Rightarrow> Some (Inl e, P1, in1)
         | (Inr tok, P1, in1) \<Rightarrow>
             if tok = Tok_Comment then parse X n (Parse_vector_loop v) P1 in1
             else if tok = Tok_CBrace then Some (Inr (Vector_c v), P1, in1)
             else if tok = Tok_Eof \<or> tok = Tok_Error
             then Some (Inl (parse_error ''error while reading vector''), P1, in1)
             else
               (case parse X n Read_token (P1\<lparr>put_back := tok\<rparr>) (clear in1) of
                  None \<Rightarrow> None
                | Some (Inl e, P2, in2) \<Rightarrow> Some (Inl e, P2, in2)
                | Some (Inr x, P2, in2) \<Rightarrow>
                    parse X n (Parse_vector_loop v) (P2\<lparr>scm_ref := push_back v x (scm_ref P2)\<rparr>) in2)))
    | Parse_list_loop list tail \<Rightarrow>
     (if \<not> good inp then Some (Inl (parse_error ''error while reading list''), P, inp)
      else
        (case get_token X P inp of
           (Inl e, P1, in1) \<Rightarrow> Some (Inl e, P1, in1)
         | (Inr tok, P1, in1) \<Rightarrow>
             if tok = Tok_Comment then parse X n (Parse_list_loop list tail) P1 in1
             else if tok = Tok_CBrace then Some (Inr list, P1, in1)
             else if tok = Tok_Dot then
               (case parse X n Read_token P1 (clear in1) of
                  None \<Rightarrow> None
                | Some (Inl e, P2, in2) \<Rightarrow> Some (Inl e, P2, in2)
                | Some (Inr cell, P2, in2) \<Rightarrow>
                    (case get_token X P2 in2 of
                       (Inl e, P3, in3) \<Rightarrow> Some (Inl e, P3, in3)
                     | (Inr tok2, P3, in3) \<Rightarrow>
                         if tok2 = Tok_CBrace then parse_list_dot cell list tail P3 in3
                         else Some (Inl (parse_error ''error while reading list''), P3, in3)))
             else if tok = Tok_Eof \<or> tok = Tok_Error
             then Some (Inl (parse_error ''error while reading list''), P1, in1)
             else
               (case parse X n Read_token (P1\<lparr>put_back := tok\<rparr>) (clear in1) of
                  None \<Rightarrow> None
                | Some (Inl e, P2, in2) \<Rightarrow> Some (Inl e, P2, in2)
                | Some (Inr cell, P2, in2) \<Rightarrow>
                    (case parse_list_item cell list tail P2 of
                       (Inl e, P3) \<Rightarrow> Some (Inl e, P3, in2)
                     | (Inr (list', tail'), P3) \<Rightarrow> parse X n (Parse_list_loop list' tail') P3 in2)))))"




definition parse_vector :: "Parser_ext \<Rightarrow> nat \<Rightarrow> Parser \<Rightarrow> istream \<Rightarrow> parsed" where
  "parse_vector X n P inp = parse X n Parse_vector P inp"


section \<open>Notions for the properties of the lexer\<close>

text \<open>
  The text of a string literal between its quotes is a sequence of items: a character
  written as it is, or a backslash followed by the escaped character.
\<close>

datatype string_item = Plain char | Escaped char

fun item_text :: "string_item \<Rightarrow> string" where
  "item_text (Plain c) = [c]"
| "item_text (Escaped c) = [CHR 0x5C, c]"

definition literal_text :: "string_item list \<Rightarrow> string" where
  "literal_text items = concat (map item_text items)"

fun item_ok :: "string_item \<Rightarrow> bool" where
  "item_ok (Plain c) = (iswprint c \<and> c \<noteq> CHR 0x22 \<and> c \<noteq> CHR 0x5C)"
| "item_ok (Escaped c) = iswprint c"

fun item_display :: "string_item \<Rightarrow> char" where
  "item_display (Plain c) = c"
| "item_display (Escaped c) = display_escape c"

definition istream_of :: "string \<Rightarrow> istream" where
  "istream_of s = \<lparr>buf = s, eofbit = False, failbit = False, skipws = True\<rparr>"

section \<open>Notions for the properties of the parser\<close>










section \<open>Facts about numbers\<close>

lemma Float_key_zero: "Float_key Float_zero = 0"
  by (simp add: Float_key_def Float_zero_def)

lemma Float_zero_not_nan: "\<not> Float_isnan Float_zero"
  by (simp add: Float_isnan_def Float_zero_def)

lemma sint_eq_0_iff: "(sint (i :: Int_t) = 0) = (i = 0)"
  by (rule signed_eq_0_iff)

lemma arith_test_iff:
  "(arith_greater_zero y \<or> arith_less_zero y) = (arith_neq_zero y \<and> \<not> arith_isnan y)"
proof (cases y)
  case (Integral i)
  have "(0 <s i \<or> i <s 0) = (i \<noteq> 0)"
    using sint_eq_0_iff [of i] by (auto simp: word_sless_alt)
  with Integral show ?thesis
    by (simp add: arith_neq_zero_def)
next
  case (Unsigned u)
  then show ?thesis
    by (simp add: arith_neq_zero_def word_greater_zero_iff)
next
  case (Floating f)
  then show ?thesis
    by (auto simp: arith_neq_zero_def Float_greater_def Float_less_def Float_eq_def
        Float_key_zero Float_zero_not_nan)
qed

lemma Float_of_Int_examples:
  "Float_of_Int 1 = Float_one"
  "Float_of_Int (- 2) = Float_minus_two"
  "Float_of_Int 3 = Float_bits False 1024 0x8000000000000"
  "Float_of_Int 0x20000000000003 = Float_bits False 1076 2"
  "Float_of_Int 0x8000000000000000 = Float_bits False 1086 0"
  "Float_of_Int (- 0x8000000000000000) = Float_bits True 1086 0"
  by (simp_all add: Float_of_Int_def Let_def bit_length.simps Float_one_def Float_minus_two_def)

text \<open>
  What the constructors do where the imaginary part is not a NaN: a Complex with the
  parts \<open>x\<close> and \<open>y\<close>, each converted to Float, when \<open>y\<close> is not zero, and the real value
  \<open>x\<close> when \<open>y\<close> is zero, an Int when \<open>x\<close> is of an integral type and a Real when it is a
  Float. No constructor turns a Float into an Int, whatever its value.
\<close>

lemma Number_construction:
  "(arith_neq_zero y \<and> \<not> arith_isnan y \<longrightarrow>
      Number_of_RE_IM x y = Num_Complex (static_cast_Float x) (static_cast_Float y)) \<and>
   (arith_eq_zero y \<longrightarrow> Number_of_RE_IM x y = Number_of x) \<and>
   Number_of (Integral i) = Num_Int i \<and>
   Number_of (Unsigned u) = Num_Int u \<and>
   Number_of (Floating f) = Num_Float f \<and>
   \<not> is_int (Number_of (Floating f)) \<and>
   \<not> is_int (Number_of_RE_IM (Floating f) y) \<and>
   \<not> is_int (Number_of_Complex (f, g))"
  using arith_test_iff [of y] arith_test_iff [of "Floating g"]
  by (simp add: Number_of_RE_IM_def Number_of_Complex_def arith_neq_zero_def)

text \<open>
  The parts keep their values: an unsigned real part of \<open>2^63\<close> is the Float \<open>2^63\<close> in
  the Complex, and the Int of the same bits, \<open>-2^63\<close>, when the imaginary part is zero.
\<close>

lemma Number_construction_examples:
  "Number_of_RE_IM (Unsigned 0x8000000000000000) (Unsigned 1)
     = Num_Complex (Float_bits False 1086 0) Float_one"
  "Number_of_RE_IM (Integral 0x8000000000000000) (Integral 1)
     = Num_Complex (Float_bits True 1086 0) Float_one"
  "Number_of_RE_IM (Unsigned 0x8000000000000000) (Unsigned 0) = Num_Int (- 0x8000000000000000)"
  "Number_of_RE_IM (Integral 3) (Floating Float_minus_two)
     = Num_Complex (Float_bits False 1024 0x8000000000000) Float_minus_two"
  "Number_of_RE_IM (Floating Float_one) (Integral 0) = Num_Float Float_one"
  "Number_of_Complex (Float_of_Int 3, Float_zero) = Num_Float (Float_of_Int 3)"
  by (simp_all add: Number_of_RE_IM_def Number_of_Complex_def Float_of_Int_examples word_sless_alt
      Float_greater_def Float_less_def Float_isnan_def Float_minus_two_def Float_zero_def
      Float_key_def)

text \<open>
  Claim C1 (construction of a Number from a real and an imaginary part). The claim says
  that a nonzero imaginary part \<open>y\<close> gives a Complex with the parts \<open>(x, y)\<close>. The
  constructor tests \<open>y > 0 || y < 0\<close>. For a NaN both comparisons are false, although
  \<open>y != 0\<close> holds and \<open>y == 0\<close> does not: \<open>Number(1.0, NaN)\<close>, and likewise the Number
  made from the Complex \<open>(1.0, NaN)\<close>, is the Real \<open>1.0\<close> and not a Complex; the imaginary
  part is dropped.
\<close>

theorem C1_NaN_imaginary_part_is_dropped:
  "arith_neq_zero (Floating Float_quiet_NaN) \<and>
   \<not> arith_eq_zero (Floating Float_quiet_NaN) \<and>
   Number_of_RE_IM (Floating Float_one) (Floating Float_quiet_NaN) = Num_Float Float_one \<and>
   Number_of_Complex (Float_one, Float_quiet_NaN) = Num_Float Float_one \<and>
   Number_of_RE_IM (Floating Float_one) (Floating Float_quiet_NaN)
     \<noteq> Num_Complex Float_one Float_quiet_NaN"
  by (simp add: Number_of_RE_IM_def Number_of_Complex_def arith_neq_zero_def Float_eq_def
      Float_greater_def Float_less_def Float_isnan_def Float_quiet_NaN_def)

section \<open>Facts about printed numbers\<close>

lemma char_of_int_bits:
  "char_of (n::int) =
     Char (n mod 2 = 1) (n div 2 mod 2 = 1) (n div 4 mod 2 = 1) (n div 8 mod 2 = 1)
       (n div 16 mod 2 = 1) (n div 32 mod 2 = 1) (n div 64 mod 2 = 1) (n div 128 mod 2 = 1)"
  by (simp add: char_of_def bit_iff_odd odd_iff_mod_2_eq_one)

lemma char_of_nat_bits:
  "char_of (n::nat) =
     Char (n mod 2 = 1) (n div 2 mod 2 = 1) (n div 4 mod 2 = 1) (n div 8 mod 2 = 1)
       (n div 16 mod 2 = 1) (n div 32 mod 2 = 1) (n div 64 mod 2 = 1) (n div 128 mod 2 = 1)"
  by (simp add: char_of_def bit_iff_odd odd_iff_mod_2_eq_one)

lemma Float_consts_compare:
  "Float_less Float_minus_two Float_zero" "\<not> Float_greater Float_minus_two Float_zero"
  "Float_less Float_minus_two Float_minus_one"
  "Float_less Float_minus_one Float_zero" "\<not> Float_greater Float_minus_one Float_zero"
  "\<not> Float_less Float_minus_one Float_minus_one"
  "\<not> Float_greater Float_minus_one Float_minus_one"
  "Float_greater Float_one Float_zero" "\<not> Float_less Float_one Float_zero"
  "\<not> Float_less Float_one Float_one" "\<not> Float_greater Float_one Float_one"
  by (simp_all add: Float_less_def Float_greater_def Float_isnan_def Float_key_def
      Float_zero_def Float_one_def Float_minus_one_def Float_minus_two_def)

text \<open>
  Claim C4 says that a Complex with a negative imaginary part \<open>b\<close> is written \<open>a-bi\<close>. For
  the Complex with real part 1 and imaginary part -2 the code writes the real part, the
  character \<open>-\<close> and then the imaginary part itself, whose own text starts with its sign:
  with the stream's scientific format, \<open>1.000000e+00--2.000000e+00i\<close>. The other forms
  are as the claim says: \<open>a-i\<close> and \<open>a+i\<close> without a coefficient for -1 and 1, a Real in
  the stream's scientific format, an Int in decimal.
\<close>

theorem C4_negative_imaginary_part_written_with_its_sign:
  "write_Number F (Num_Complex Float_one Float_minus_two)
     = fmt_Float F Float_one @ ''-'' @ fmt_Float F Float_minus_two @ ''i'' \<and>
   write_Number F (Num_Complex Float_one Float_minus_one) = fmt_Float F Float_one @ ''-i'' \<and>
   write_Number F (Num_Complex Float_one Float_one) = fmt_Float F Float_one @ ''+i'' \<and>
   write_Number F (Num_Float x) = fmt_Float F x \<and>
   write_Number F (Num_Int 42) = ''42'' \<and>
   write_Number F (Num_Int (- 7)) = ''-7''"
  by (simp add: write_Complex_def Float_consts_compare fmt_Int_def decimal.simps
      char_of_nat_bits)

section \<open>Facts about the primitives\<close>

lemma accumulate_numbers:
  "accumulate f a (map Number_c ns) = left_to_right f a ns"
  by (induction ns arbitrary: a) (auto split: sum.splits)

text \<open>
  Claim C2 says that \<open>-\<close> applied to the one-element argument list \<open>[x]\<close> returns the
  negation of \<open>x\<close> and \<open>/\<close> the reciprocal. The code returns \<open>x\<close> itself in both cases:
  \<open>res\<close> starts as the first argument and the loop over the remaining arguments does not
  run. So \<open>(- 5)\<close> is \<open>5\<close>, and so is \<open>(/ 5)\<close>, whatever the operators \<open>-=\<close> and \<open>/=\<close> do.
\<close>

theorem C2_unary_minus_and_divide_return_argument:
  "call ops senv op_sub [Number_c x] scm = (Inr (Number_c x), scm) \<and>
   call ops senv op_div [Number_c x] scm = (Inr (Number_c x), scm) \<and>
   fun_sub ops [Number_c (Num_Int 5)] = Inr (Number_c (Num_Int 5)) \<and>
   fun_div ops [Number_c (Num_Int 5)] = Inr (Number_c (Num_Int 5))"
  by (simp add: fun_sub_def fun_div_def at_def)

text \<open>
  Claim C9: \<open>+\<close> applied to the empty argument list returns 0 and \<open>*\<close> returns 1; on
  every vector of numbers \<open>+\<close> returns the left-to-right sum starting from 0 and \<open>*\<close> the
  left-to-right product starting from 1, whatever the operators \<open>+=\<close> and \<open>*=\<close> are; with
  the sum of two Ints an Int, \<open>(+ 1 2 3)\<close> is 6. The primitives leave the state as it is.
\<close>

theorem C9_sum_and_product:
  "fun_add ops [] = Inr (Number_c (Num_Int 0)) \<and>
   fun_mul ops [] = Inr (Number_c (Num_Int 1)) \<and>
   fun_add ops (map Number_c ns)
     = map_sum id Number_c (left_to_right (plus_assign ops) (Num_Int 0) ns) \<and>
   fun_mul ops (map Number_c ns)
     = map_sum id Number_c (left_to_right (times_assign ops) (Num_Int 1) ns) \<and>
   fun_add (Int_ops other) [Number_c (Num_Int 1), Number_c (Num_Int 2), Number_c (Num_Int 3)]
     = Inr (Number_c (Num_Int 6)) \<and>
   call ops senv op_add args scm = (fun_add ops args, scm) \<and>
   call ops senv op_mul args scm = (fun_mul ops args, scm)"
  by (simp add: fun_add_def fun_mul_def accumulate_numbers Int_ops_def)

text \<open>
  Claim C10: \<open>-\<close> and \<open>/\<close> applied to the empty argument list throw \<open>std::out_of_range\<close>
  (from \<open>args.at(0)\<close>) and return no number; the state after the failed call, with its
  cells and its environment bindings, is the state before it.
\<close>

theorem C10_empty_minus_and_divide:
  "call ops senv op_sub [] scm = (Inl out_of_range, scm) \<and>
   call ops senv op_div [] scm = (Inl out_of_range, scm)"
  by (simp add: fun_sub_def fun_div_def at_def)

section \<open>Facts about the write printer\<close>

lemma and_then_simps [simp]:
  "and_then None f = None"
  "and_then (Some (Inl e)) f = Some (Inl e)"
  "and_then (Some (Inr x)) f = f x"
  "and_then (emit x) f = f x"
  by (simp_all add: and_then_def emit_def)

lemma le_out_refl [simp]: "le_out a a"
  by (simp add: le_out_def)

lemma le_out_None [simp]: "le_out None b"
  by (simp add: le_out_def)

lemma le_out_Some: "le_out a b \<Longrightarrow> a = Some r \<Longrightarrow> b = Some r"
  by (auto simp: le_out_def)

lemma and_then_mono:
  "le_out m m' \<Longrightarrow> (\<And>x. le_out (f x) (f' x)) \<Longrightarrow> le_out (and_then m f) (and_then m' f')"
  by (auto simp: le_out_def and_then_def split: option.splits sum.splits)

lemma le_out_if:
  "(c \<Longrightarrow> le_out a a') \<Longrightarrow> (\<not> c \<Longrightarrow> le_out b b') \<Longrightarrow>
   le_out (if c then a else b) (if c then a' else b')"
  by simp

lemma write_list_end_mono:
  "(\<And>c. le_out (pr c) (pr' c)) \<Longrightarrow> le_out (write_list_end pr x) (write_list_end pr' x)"
  by (simp add: write_list_end_def and_then_mono)

lemma write_items_mono:
  "(\<And>c. le_out (pr c) (pr' c)) \<Longrightarrow> le_out (write_items pr xs) (write_items pr' xs)"
  by (induction xs) (simp_all add: and_then_mono)

lemma write_Vector_mono:
  "(\<And>c. le_out (pr c) (pr' c)) \<Longrightarrow> le_out (write_Vector pr xs) (write_Vector pr' xs)"
  by (cases xs) (simp_all add: write_Vector_def and_then_mono write_items_mono)

lemma write_list_loop_mono:
  "(\<And>c. le_out (pr c) (pr' c)) \<Longrightarrow> k \<le> k' \<Longrightarrow>
   le_out (write_list_loop pr scm k iter slow) (write_list_loop pr' scm k' iter slow)"
proof (induction k arbitrary: k' iter slow)
  case 0
  then show ?case by (simp add: write_list_loop.simps)
next
  case (Suc k)
  then obtain j where k': "k' = Suc j" and kj: "k \<le> j"
    by (cases k') auto
  have rec: "\<And>i s. le_out (write_list_loop pr scm k i s) (write_list_loop pr' scm j i s)"
    using Suc.IH [OF Suc.prems(1) kj] .
  show ?case
    unfolding k' write_list_loop.simps
    by (intro le_out_if and_then_mono write_list_end_mono Suc.prems(1) rec le_out_refl)
qed

lemma write_Cons_mono:
  "(\<And>c. le_out (pr c) (pr' c)) \<Longrightarrow> k \<le> k' \<Longrightarrow>
   le_out (write_Cons pr scm k c) (write_Cons pr' scm k' c)"
  unfolding write_Cons_def
  by (intro and_then_mono write_list_loop_mono le_out_refl)

lemma write_Cell_mono:
  "n \<le> m \<Longrightarrow> le_out (write_Cell F n scm c) (write_Cell F m scm c)"
proof (induction n arbitrary: m c)
  case 0
  then show ?case by simp
next
  case (Suc n)
  then obtain j where m: "m = Suc j" and nj: "n \<le> j"
    by (cases m) auto
  have rec: "\<And>c. le_out (write_Cell F n scm c) (write_Cell F j scm c)"
    using Suc.IH [OF nj] .
  show ?case
    unfolding m
    by (cases c) (simp_all add: write_Cons_mono write_Vector_mono rec nj)
qed

lemma write_Cell_more_fuel:
  "write_Cell F n scm c = Some r \<Longrightarrow> n \<le> m \<Longrightarrow> write_Cell F m scm c = Some r"
  using write_Cell_mono [of n m F scm c] by (auto simp: le_out_def)

lemma is_pair_iff: "is_pair c = (\<exists>a. c = Cons_c a)"
  by (cases c) simp_all

lemma car_pair: "is_pair c \<Longrightarrow> car c scm = Inr (list_item scm c)"
  by (auto simp: is_pair_iff list_item_def)

lemma cdr_pair: "is_pair c \<Longrightarrow> cdr c scm = Inr (next_cell scm c)"
  by (auto simp: is_pair_iff next_cell_def)

lemma nth_cdr_0 [simp]: "nth_cdr scm 0 c = c"
  by (simp add: nth_cdr_def)

lemma nth_cdr_Suc: "nth_cdr scm (Suc i) c = next_cell scm (nth_cdr scm i c)"
  by (simp add: nth_cdr_def)

lemma nth_cdr_add: "nth_cdr scm (i + j) c = nth_cdr scm i (nth_cdr scm j c)"
  by (simp add: nth_cdr_def funpow_add)

lemma pigeon_nat:
  assumes "\<forall>i\<le>N. f i < (N::nat)"
  shows "\<exists>a b. a < b \<and> b \<le> N \<and> f a = (f b :: nat)"
proof -
  have "f ` {..N} \<subseteq> {..<N}"
    using assms by auto
  then have "card (f ` {..N}) \<le> card {..<N}"
    by (intro card_mono) auto
  then have "card (f ` {..N}) < card {..N}"
    by simp
  then have "\<not> inj_on f {..N}"
    by (rule pigeonhole)
  then obtain a b where "a \<le> N" "b \<le> N" "a \<noteq> b" "f a = f b"
    by (auto simp: inj_on_def)
  then have "(a < b \<and> b \<le> N \<and> f a = f b) \<or> (b < a \<and> a \<le> N \<and> f b = f a)"
    by auto
  then show ?thesis
    by blast
qed

lemma nth_cdr_periodic:
  assumes "nth_cdr scm (a + p) x = nth_cdr scm a x" and "a \<le> m"
  shows "nth_cdr scm (m + c * p) x = nth_cdr scm m x"
proof (induction c)
  case 0
  show ?case by simp
next
  case (Suc c)
  have "m + Suc c * p = (m - a) + c * p + (a + p)"
    using assms(2) by simp
  then have "nth_cdr scm (m + Suc c * p) x = nth_cdr scm ((m - a) + c * p) (nth_cdr scm (a + p) x)"
    by (simp only: nth_cdr_add)
  also have "\<dots> = nth_cdr scm ((m - a) + c * p + a) x"
    by (simp only: assms(1) nth_cdr_add [symmetric])
  also have "(m - a) + c * p + a = m + c * p"
    using assms(2) by simp
  finally show ?case
    using Suc.IH by simp
qed

lemma exit_exists:
  assumes wf: "\<forall>i a. nth_cdr scm i x = Cons_c a \<longrightarrow> a < N"
  shows "\<exists>j\<le>N. exit_at scm x j"
proof (rule ccontr)
  assume "\<not> (\<exists>j\<le>N. exit_at scm x j)"
  then have no: "\<And>j. j \<le> N \<Longrightarrow> \<not> exit_at scm x j"
    by blast
  have pairs: "is_pair (nth_cdr scm i x)" if "i \<le> N" for i
  proof -
    have "i = 2 * (i div 2) \<or> i = 2 * (i div 2) + 1" by presburger
    moreover have "i div 2 \<le> N" using that by simp
    ultimately show ?thesis
      using no [of "i div 2"] unfolding exit_at_def by metis
  qed
  define f where "f i = (case nth_cdr scm i x of Cons_c a \<Rightarrow> a | _ \<Rightarrow> 0)" for i
  have f: "nth_cdr scm i x = Cons_c (f i)" if "i \<le> N" for i
    using pairs [OF that] by (auto simp: is_pair_iff f_def)
  have "\<forall>i\<le>N. f i < N"
    using f wf by blast
  then obtain a b where ab: "a < b" "b \<le> N" "f a = f b"
    using pigeon_nat by blast
  define p where "p = b - a"
  have p: "0 < p" "a + p = b"
    using ab by (simp_all add: p_def)
  have same: "nth_cdr scm (a + p) x = nth_cdr scm a x"
    using f [of a] f [of b] ab p by simp
  define j where "j = a + (p - 1 - a mod p)"
  have "a mod p < p"
    using p by simp
  then have j: "a \<le> j" "j < b"
    using p by (simp_all add: j_def)
  have "j + 1 = a - a mod p + p"
    using \<open>a mod p < p\<close> by (simp add: j_def)
  also have "a - a mod p = (a div p) * p"
    by (simp add: minus_mod_eq_div_mult)
  finally have e: "2 * j + 1 = j + (a div p + 1) * p"
    by (simp add: algebra_simps)
  have "nth_cdr scm (2 * j + 1) x = nth_cdr scm (j + (a div p + 1) * p) x"
    by (simp only: e)
  then have "nth_cdr scm (2 * j + 1) x = nth_cdr scm j x"
    by (simp only: nth_cdr_periodic [OF same j(1)])
  then have "exit_at scm x j"
    by (simp add: exit_at_def)
  moreover have "j \<le> N"
    using j ab by simp
  ultimately show False
    using no by blast
qed

lemma write_list_end_prints:
  assumes "\<exists>s. pr (list_item scm c) = Some (Inr s)" "\<not> is_pair c"
  shows "\<exists>s. write_list_end pr c = Some (Inr s)"
proof -
  from assms(2) have "list_item scm c = c"
    by (cases c) (simp_all add: list_item_def)
  with assms(1) show ?thesis
    by (auto simp: write_list_end_def emit_def)
qed

lemma pairs_before_exit:
  assumes "\<forall>j'\<le>j. \<not> exit_at scm x j'" "i \<le> 2 * j + 1"
  shows "is_pair (nth_cdr scm i x)"
proof -
  have "i = 2 * (i div 2) \<or> i = 2 * (i div 2) + 1" by presburger
  moreover have "i div 2 \<le> j" using assms(2) by simp
  ultimately show ?thesis
    using assms(1) unfolding exit_at_def by metis
qed

lemma loop_step_end:
  "\<not> is_pair iter \<Longrightarrow> write_list_loop pr scm (Suc k) iter slow = write_list_end pr iter"
  by (simp add: write_list_loop.simps)

lemma loop_step_last:
  assumes "is_pair iter" "pr (list_item scm iter) = Some (Inr s1)" "\<not> is_pair (next_cell scm iter)"
  shows "write_list_loop pr scm (Suc k) iter slow =
    (if slow = next_cell scm iter then emit ('' '' @ s1 @ '' ...)'')
     else and_then (write_list_end pr (next_cell scm iter)) (\<lambda>t. emit ('' '' @ s1 @ t)))"
  using assms by (simp add: write_list_loop.simps car_pair cdr_pair)

lemma loop_step_detect:
  assumes "is_pair iter" "pr (list_item scm iter) = Some (Inr s1)" "slow = next_cell scm iter"
  shows "write_list_loop pr scm (Suc k) iter slow = emit ('' '' @ s1 @ '' ...)'')"
  using assms by (simp add: write_list_loop.simps car_pair cdr_pair)

lemma loop_step_continue:
  assumes "is_pair iter" "pr (list_item scm iter) = Some (Inr s1)"
    "is_pair (next_cell scm iter)" "slow \<noteq> next_cell scm iter"
    "pr (list_item scm (next_cell scm iter)) = Some (Inr s2)" "is_pair slow"
  shows "write_list_loop pr scm (Suc k) iter slow =
    and_then (write_list_loop pr scm k (next_cell scm (next_cell scm iter)) (next_cell scm slow))
      (\<lambda>r. emit ('' '' @ s1 @ '' '' @ s2 @ r))"
  using assms by (simp add: write_list_loop.simps car_pair cdr_pair)

lemma loop_from:
  assumes E: "exit_at scm x E" and noexit: "\<forall>j<E. \<not> exit_at scm x j"
    and pr: "\<forall>i\<le>2 * E + 1. \<exists>s. pr (list_item scm (nth_cdr scm i x)) = Some (Inr s)"
  shows "j \<le> E \<Longrightarrow>
    \<exists>s. write_list_loop pr scm (Suc (E - j)) (nth_cdr scm (2 * j) x) (nth_cdr scm j x) = Some (Inr s) \<and>
        ((\<forall>i. is_pair (nth_cdr scm i x)) \<longrightarrow> (\<exists>p. s = p @ '' ...)''))"
proof (induction "E - j" arbitrary: j)
  case 0
  then have j: "j = E" by simp
  obtain s1 where s1: "pr (list_item scm (nth_cdr scm (2 * E) x)) = Some (Inr s1)"
    using pr by (meson le_add1)
  have nxt: "next_cell scm (nth_cdr scm (2 * E) x) = nth_cdr scm (2 * E + 1) x"
    by (simp add: nth_cdr_Suc)
  show ?case
  proof (cases "is_pair (nth_cdr scm (2 * E) x)")
    case False
    obtain t where "write_list_end pr (nth_cdr scm (2 * E) x) = Some (Inr t)"
      using write_list_end_prints [OF _ False, of pr scm] pr by (meson le_add1)
    with False show ?thesis
      unfolding j by (auto simp: loop_step_end)
  next
    case True
    note p0 = this
    show ?thesis
    proof (cases "is_pair (nth_cdr scm (2 * E + 1) x)")
      case False
      obtain t where "write_list_end pr (nth_cdr scm (2 * E + 1) x) = Some (Inr t)"
        using write_list_end_prints [OF _ False, of pr scm] pr by (meson le_refl)
      moreover have "\<not> (\<forall>i. is_pair (nth_cdr scm i x))"
        using False by blast
      ultimately show ?thesis
        unfolding j using False
        by (auto simp: loop_step_last [where pr = pr and scm = scm, OF p0 s1] nxt emit_def)
    next
      case True
      with E p0 have "nth_cdr scm E x = nth_cdr scm (2 * E + 1) x"
        by (simp add: exit_at_def)
      then have "nth_cdr scm E x = next_cell scm (nth_cdr scm (2 * E) x)"
        by (simp only: nxt)
      then show ?thesis
        unfolding j by (simp add: loop_step_detect [where pr = pr and scm = scm, OF p0 s1] emit_def)
    qed
  qed
next
  case (Suc d)
  then have lt: "j < E" and d: "d = E - Suc j" and le: "Suc j \<le> E"
    by simp_all
  have ne: "\<forall>j'\<le>j. \<not> exit_at scm x j'"
    using noexit lt by simp
  have p0: "is_pair (nth_cdr scm (2 * j) x)" and p1: "is_pair (nth_cdr scm (2 * j + 1) x)"
    and pj: "is_pair (nth_cdr scm j x)"
    using pairs_before_exit [OF ne] by simp_all
  have neq: "nth_cdr scm j x \<noteq> nth_cdr scm (2 * j + 1) x"
    using ne [rule_format, of j] by (simp add: exit_at_def)
  have "2 * j \<le> 2 * E + 1" "2 * j + 1 \<le> 2 * E + 1"
    using lt by simp_all
  then obtain s1 s2 where s1: "pr (list_item scm (nth_cdr scm (2 * j) x)) = Some (Inr s1)"
    and s2: "pr (list_item scm (nth_cdr scm (2 * j + 1) x)) = Some (Inr s2)"
    using pr by meson
  have n1: "next_cell scm (nth_cdr scm (2 * j) x) = nth_cdr scm (2 * j + 1) x"
    and n2: "next_cell scm (nth_cdr scm (2 * j + 1) x) = nth_cdr scm (2 * Suc j) x"
    and n3: "next_cell scm (nth_cdr scm j x) = nth_cdr scm (Suc j) x"
    by (simp_all add: nth_cdr_Suc)
  obtain r where r: "write_list_loop pr scm (Suc (E - Suc j)) (nth_cdr scm (2 * Suc j) x)
        (nth_cdr scm (Suc j) x) = Some (Inr r)"
      and rs: "(\<forall>i. is_pair (nth_cdr scm i x)) \<longrightarrow> (\<exists>p. r = p @ '' ...)'')"
    using Suc.hyps(1) [OF d le] by blast
  have fuel: "Suc (E - j) = Suc (Suc (E - Suc j))"
    using lt by simp
  have step: "write_list_loop pr scm (Suc (Suc (E - Suc j))) (nth_cdr scm (2 * j) x) (nth_cdr scm j x)
      = and_then (write_list_loop pr scm (Suc (E - Suc j))
           (next_cell scm (next_cell scm (nth_cdr scm (2 * j) x))) (next_cell scm (nth_cdr scm j x)))
          (\<lambda>r. emit ('' '' @ s1 @ '' '' @ s2 @ r))"
    by (rule loop_step_continue) (simp_all only: p0 p1 pj neq s1 s2 n1 not_False_eq_True)
  have "write_list_loop pr scm (Suc (E - j)) (nth_cdr scm (2 * j) x) (nth_cdr scm j x)
          = Some (Inr ('' '' @ s1 @ '' '' @ s2 @ r))"
    unfolding fuel step n1 n2 n3 r by (simp add: emit_def)
  moreover have "(\<forall>i. is_pair (nth_cdr scm i x)) \<longrightarrow> (\<exists>p. '' '' @ s1 @ '' '' @ s2 @ r = p @ '' ...)'')"
  proof
    assume "\<forall>i. is_pair (nth_cdr scm i x)"
    then obtain p where "r = p @ '' ...)''" using rs by blast
    then have "'' '' @ s1 @ '' '' @ s2 @ r = ('' '' @ s1 @ '' '' @ s2 @ p) @ '' ...)''"
      by simp
    then show "\<exists>p. '' '' @ s1 @ '' '' @ s2 @ r = p @ '' ...)''" by blast
  qed
  ultimately show ?case by blast
qed

lemma allocated_next:
  "cdr_closed scm \<Longrightarrow> allocated scm c \<Longrightarrow> allocated scm (next_cell scm c)"
  by (cases c) (auto simp: cdr_closed_def allocated_def list_all_iff next_cell_def)

lemma allocated_nth_cdr:
  "cdr_closed scm \<Longrightarrow> allocated scm c \<Longrightarrow> allocated scm (nth_cdr scm i c)"
  by (induction i) (simp_all add: nth_cdr_Suc allocated_next)

lemma nth_cdr_Suc_next: "nth_cdr scm (Suc i) c = nth_cdr scm i (next_cell scm c)"
  by (simp add: nth_cdr_def funpow_swap1)

lemma uniform_fuel:
  "\<forall>i\<le>(M::nat). prints F scm (g i) \<Longrightarrow> \<exists>N. \<forall>i\<le>M. \<exists>s. write_Cell F N scm (g i) = Some (Inr s)"
proof (induction M)
  case 0
  then show ?case by (auto simp: prints_def)
next
  case (Suc M)
  then obtain N where N: "\<forall>i\<le>M. \<exists>s. write_Cell F N scm (g i) = Some (Inr s)"
    by auto
  from Suc.prems obtain n s where n: "write_Cell F n scm (g (Suc M)) = Some (Inr s)"
    by (auto simp: prints_def)
  have "\<exists>s. write_Cell F (max N n) scm (g i) = Some (Inr s)" if "i \<le> Suc M" for i
  proof (cases "i = Suc M")
    case True
    then show ?thesis using write_Cell_more_fuel [OF n, of "max N n"] by simp
  next
    case False
    then have "i \<le> M" using that by simp
    then obtain t where "write_Cell F N scm (g i) = Some (Inr t)" using N by blast
    then show ?thesis using write_Cell_more_fuel [of F N scm "g i" _ "max N n"] by simp
  qed
  then show ?case by blast
qed

lemma write_Cons_terminates:
  assumes closed: "cdr_closed scm" and a: "a < ncons scm"
    and items: "\<forall>i. prints F scm (list_item scm (nth_cdr scm i (Cons_c a)))"
  shows "\<exists>n s. write_Cell F n scm (Cons_c a) = Some (Inr s) \<and>
           (cyclic_list scm (Cons_c a) \<longrightarrow> (\<exists>p. s = p @ '' ...)''))"
proof -
  define x where "x = next_cell scm (Cons_c a)"
  have chain: "nth_cdr scm i x = nth_cdr scm (Suc i) (Cons_c a)" for i
    by (simp add: x_def nth_cdr_Suc_next)
  have "allocated scm (Cons_c a)"
    using a by (simp add: allocated_def)
  then have "allocated scm (nth_cdr scm i x)" for i
    unfolding chain by (rule allocated_nth_cdr [OF closed])
  then have "allocated scm (Cons_c b)" if "nth_cdr scm i x = Cons_c b" for i b
    using that by metis
  then have "\<forall>i b. nth_cdr scm i x = Cons_c b \<longrightarrow> b < ncons scm"
    by (simp add: allocated_def)
  then have ex: "\<exists>j. exit_at scm x j"
    using exit_exists by blast
  define E where "E = (LEAST j. exit_at scm x j)"
  have E: "exit_at scm x E"
    unfolding E_def using ex by (rule LeastI_ex)
  have noexit: "\<forall>j<E. \<not> exit_at scm x j"
    unfolding E_def using not_less_Least by blast
  have "\<forall>i\<le>2 * E + 2. prints F scm (list_item scm (nth_cdr scm i (Cons_c a)))"
    using items by blast
  then obtain N where N: "\<forall>i\<le>2 * E + 2. \<exists>s. write_Cell F N scm (list_item scm (nth_cdr scm i (Cons_c a))) = Some (Inr s)"
    using uniform_fuel [of "2 * E + 2" F scm "\<lambda>i. list_item scm (nth_cdr scm i (Cons_c a))"] by blast
  then have "\<forall>i\<le>2 * E + 1. \<exists>s. write_Cell F N scm (list_item scm (nth_cdr scm i x)) = Some (Inr s)"
    unfolding chain by simp
  from loop_from [OF E noexit this, of 0]
  obtain r where r: "write_list_loop (write_Cell F N scm) scm (Suc E) x x = Some (Inr r)"
    and rs: "(\<forall>i. is_pair (nth_cdr scm i x)) \<longrightarrow> (\<exists>p. r = p @ '' ...)'')"
    by auto
  define n where "n = max N (Suc E)"
  have "le_out (write_list_loop (write_Cell F N scm) scm (Suc E) x x)
          (write_list_loop (write_Cell F n scm) scm n x x)"
    by (rule write_list_loop_mono) (simp_all add: write_Cell_mono n_def)
  then have loop: "write_list_loop (write_Cell F n scm) scm n x x = Some (Inr r)"
    using r by (simp add: le_out_def)
  obtain s0 where "write_Cell F N scm (list_item scm (Cons_c a)) = Some (Inr s0)"
    using N [rule_format, of 0] by auto
  then have s0: "write_Cell F n scm (list_item scm (Cons_c a)) = Some (Inr s0)"
    by (rule write_Cell_more_fuel) (simp add: n_def)
  have li: "list_item scm (Cons_c a) = fst (conses scm a)"
    by (simp add: list_item_def)
  have xx: "x = fst (snd (conses scm a))"
    by (simp add: x_def next_cell_def)
  have res: "write_Cell F (Suc n) scm (Cons_c a) = Some (Inr (''('' @ s0 @ r))"
    using s0 loop unfolding li xx
    by (simp add: write_Cons_def emit_def)
  have "\<exists>p. ''('' @ s0 @ r = p @ '' ...)''" if "cyclic_list scm (Cons_c a)"
  proof -
    from that have "\<forall>i. is_pair (nth_cdr scm i x)"
      unfolding chain cyclic_list_def by blast
    then obtain p where "r = p @ '' ...)''" using rs by blast
    then have "''('' @ s0 @ r = (''('' @ s0 @ p) @ '' ...)''" by simp
    then show ?thesis by blast
  qed
  with res show ?thesis by blast
qed

lemma car_cycle_example_eq:
  "car_cycle_example ops = \<lparr>conses = (\<lambda>_. (None_c, None_c, False))
       (0 := (one, Cons_c 1, False), 1 := (Cons_c 0, Nil_c, False)), ncons = 2,
     vectors = (\<lambda>_. []), nvectors = 0, symtab = {}, topenv = Map.empty\<rparr>"
  by (simp add: car_cycle_example_def empty_Scheme_def fun_list_def cons_def at2_def at_def
      Let_def fun_eq_iff)

lemma cdr_cycle_example_eq:
  "cdr_cycle_example ops = \<lparr>conses = (\<lambda>_. (None_c, None_c, False))
       (0 := (one, Cons_c 0, False)), ncons = 1,
     vectors = (\<lambda>_. []), nvectors = 0, symtab = {}, topenv = Map.empty\<rparr>"
  by (simp add: cdr_cycle_example_def empty_Scheme_def fun_list_def cons_def at2_def at_def
      Let_def fun_eq_iff)

lemma car_cycle_never_printed:
  "write_Cell F n (car_cycle_example ops) (Cons_c 0) = None \<and>
   write_Cell F n (car_cycle_example ops) (Cons_c 1) = None"
proof (induction n)
  case 0
  show ?case by simp
next
  case (Suc n)
  have 1: "write_Cell F (Suc n) (car_cycle_example ops) (Cons_c 1) = None"
    using Suc by (simp add: write_Cons_def car_cycle_example_eq)
  have 0: "write_Cell F (Suc n) (car_cycle_example ops) (Cons_c 0) = None"
  proof (cases n)
    case 0
    then show ?thesis by (simp add: write_Cons_def car_cycle_example_eq one_def)
  next
    case (Suc m)
    then show ?thesis
      using \<open>write_Cell F n (car_cycle_example ops) (Cons_c 0) = None \<and>
   write_Cell F n (car_cycle_example ops) (Cons_c 1) = None\<close>
      by (simp add: write_Cons_def car_cycle_example_eq one_def write_list_loop.simps)
  qed
  from 0 1 show ?case by simp
qed

lemma cdr_cycle_printed:
  "write_Cell F 3 (cdr_cycle_example ops) (Cons_c 0) = Some (Inr ''(1 1 ...)'')"
  by (simp add: numeral_3_eq_3 write_Cons_def cdr_cycle_example_eq one_def write_list_loop.simps
     emit_def fmt_Int_def decimal.simps char_of_nat_bits)

text \<open>
  Claim C3, amended: for every pair cell whose items can each be printed (the car of
  every pair on its cdr chain and, where the chain ends, its last cell), in a store whose
  cdr pointers all refer to allocated records, the write printer terminates with a text;
  and when the list is cyclic (its cdr chain never ends) the hare and tortoise scan
  finds the cycle and the text ends with \<open> ...)\<close>.
\<close>

theorem C3_write_terminates_on_cyclic_lists:
  assumes "cdr_closed scm" and "a < ncons scm"
    and "\<forall>i. prints F scm (list_item scm (nth_cdr scm i (Cons_c a)))"
  shows "\<exists>n s. write_Cell F n scm (Cons_c a) = Some (Inr s) \<and>
           (cyclic_list scm (Cons_c a) \<longrightarrow> (\<exists>p. s = p @ '' ...)''))"
  using assms by (rule write_Cons_terminates)

lemma car_cycle_example_wf:
  "cdr_closed (car_cycle_example ops) \<and> 1 < ncons (car_cycle_example ops)"
  by (simp add: car_cycle_example_eq cdr_closed_def allocated_def next_cell_def
      upt_conv_Cons)

text \<open>
  Claim C3 as stated, "for every pair cell the write printer terminates", fails for a
  cycle that runs through a car. After
  \<^verbatim>\<open>(define y (list 1)) (define x (list y)) (set-cdr! y x)\<close> printing \<open>x\<close> prints its
  first item \<open>y\<close>, whose list continues with \<open>x\<close>, whose first item is \<open>y\<close> again: no
  amount of fuel gives an outcome. The hare and tortoise scan follows cdr pointers only.
\<close>

theorem C3_counterexample:
  "\<not> (\<forall>F scm a. cdr_closed scm \<and> a < ncons scm \<longrightarrow>
        (\<exists>n r. write_Cell F n scm (Cons_c a) = Some r))"
proof
  assume claim: "\<forall>F scm a. cdr_closed scm \<and> a < ncons scm \<longrightarrow>
        (\<exists>n r. write_Cell F n scm (Cons_c a) = Some r)"
  fix F :: ostream_fmt and ops :: Number_ops
  from claim car_cycle_example_wf [of ops]
  obtain n r where "write_Cell F n (car_cycle_example ops) (Cons_c 1) = Some r"
    by blast
  with car_cycle_never_printed [of F n ops] show False
    by simp
qed

lemma cdr_cycle_chain: "nth_cdr (cdr_cycle_example ops) i (Cons_c 0) = Cons_c 0"
  by (induction i) (simp_all add: nth_cdr_Suc next_cell_def cdr_cycle_example_eq)

theorem C3_witness:
  "\<forall>F ops. cdr_closed (cdr_cycle_example ops) \<and> 0 < ncons (cdr_cycle_example ops) \<and>
     cyclic_list (cdr_cycle_example ops) (Cons_c 0) \<and>
     write_Cell F 3 (cdr_cycle_example ops) (Cons_c 0) = Some (Inr ''(1 1 ...)'') \<and>
     (\<exists>n s p. write_Cell F n (cdr_cycle_example ops) (Cons_c 0) = Some (Inr s) \<and>
        s = p @ '' ...)'')"
proof (intro allI)
  fix F :: ostream_fmt and ops :: Number_ops
  let ?scm = "cdr_cycle_example ops"
  have closed: "cdr_closed ?scm"
    by (simp add: cdr_cycle_example_eq cdr_closed_def allocated_def next_cell_def)
  have a: "0 < ncons ?scm"
    by (simp add: cdr_cycle_example_eq)
  have cyc: "cyclic_list ?scm (Cons_c 0)"
    by (simp add: cyclic_list_def cdr_cycle_chain)
  have "write_Cell F 1 ?scm one = Some (Inr ''1'')"
    by (simp add: one_def emit_def fmt_Int_def decimal.simps char_of_nat_bits)
  then have "prints F ?scm one"
    unfolding prints_def by blast
  moreover have "list_item ?scm (Cons_c 0) = one"
    by (simp add: list_item_def cdr_cycle_example_eq)
  ultimately have items: "\<forall>i. prints F ?scm (list_item ?scm (nth_cdr ?scm i (Cons_c 0)))"
    by (simp add: cdr_cycle_chain)
  from C3_write_terminates_on_cyclic_lists [OF closed a items] cyc
  have "\<exists>n s p. write_Cell F n ?scm (Cons_c 0) = Some (Inr s) \<and> s = p @ '' ...)''"
    by blast
  with closed a cyc cdr_cycle_printed [of F ops]
  show "cdr_closed ?scm \<and> 0 < ncons ?scm \<and> cyclic_list ?scm (Cons_c 0) \<and>
     write_Cell F 3 ?scm (Cons_c 0) = Some (Inr ''(1 1 ...)'') \<and>
     (\<exists>n s p. write_Cell F n ?scm (Cons_c 0) = Some (Inr s) \<and> s = p @ '' ...)'')"
    by blast
qed

section \<open>Facts about character lexemes\<close>

lemma char_classes_simps:
  "\<not> iswspace (CHR ''0'')" "iswdigit (CHR ''0'')" "\<not> iswdigit (CHR ''x'')"
  by (simp_all add: iswspace_def iswdigit_def)

lemma stoi_zero_x: "stoi (CHR ''0'' # CHR ''x'' # s) = Inr 0"
  by (simp add: stoi_def Let_def char_classes_simps decimal_value_def)

text \<open>
  Claim C5 (hex character lexemes). The claim says that \<open>lex_char\<close> reads the digits after
  the \<open>x\<close> of a hex lexeme such as \<open>#\x41\<close> in base 16. The code overwrites the
  backslash with \<open>0\<close> and calls \<open>stoi\<close> with its default base 10, which reads the leading
  \<open>0\<close> and stops at the \<open>x\<close>: whatever follows the \<open>x\<close>, the character of the token
  is the one with code 0, and for \<open>#\x41\<close> that is not the character with code
  \<open>0x41\<close>.
\<close>

theorem C5_hex_character_is_NUL:
  "lex_char (CHR ''#'' # CHR 0x5C # CHR ''x'' # d # ds) c inp = (Inr Tok_Char, CHR 0x00, inp) \<and>
   lex_char (char_name ''x41'') c inp = (Inr Tok_Char, CHR 0x00, inp) \<and>
   CHR 0x00 \<noteq> (char_of (0x41 :: int) :: char)"
  by (simp add: lex_char_def stoi_zero_x char_name_def char_of_int_bits)

text \<open>
  Claim C8 (named characters). The claim says that for every entry of the table the
  lexeme of its name, in any case variant, gives a Char token carrying the entry's code
  point. The code lower-cases the lexeme and compares it with the names as the table
  writes them, so that an entry whose name has a capital letter is never found: the
  lexeme \<open>#\AE\<close>, the very name of an entry (the bytes \<open>C3 84\<close>), gives the character of
  the entry \<open>#\ae\<close> (the bytes \<open>C3 A4\<close>). The character of the token is the table value
  converted to the 8-bit \<open>Char\<close>: for \<open>#\lambda\<close> and its variant \<open>#\LAMBDA\<close> it is the
  byte \<open>BB\<close>, neither the table value \<open>0xCEBB\<close> nor the code point \<open>0x3BB\<close> of the
  letter. The lexeme \<open>#\xi\<close>, the name of an entry too, is taken as a hex form before
  the table is consulted and gives the character with code 0.
\<close>

theorem C8_named_characters_not_found:
  "(char_name ''AE'', multichar [0xC3, 0x84]) \<in> set stab \<and>
   lex_char (char_name ''AE'') (CHR 0x00) (istream_of [])
      = (Inr Tok_Char, char_of (multichar [0xC3, 0xA4]), istream_of []) \<and>
   (char_of (multichar [0xC3, 0xA4]) :: char) \<noteq> char_of (multichar [0xC3, 0x84]) \<and>
   map_of stab (char_name ''lambda'') = Some 0xCEBB \<and>
   lex_char (char_name ''lambda'') (CHR 0x00) (istream_of [])
      = (Inr Tok_Char, CHR 0xBB, istream_of []) \<and>
   lex_char (char_name ''LAMBDA'') (CHR 0x00) (istream_of [])
      = (Inr Tok_Char, CHR 0xBB, istream_of []) \<and>
   (of_char (CHR 0xBB) :: int) \<noteq> 0x3BB \<and>
   map_of stab (char_name ''xi'') = Some (multichar [0xCE, 0xBE]) \<and>
   lex_char (char_name ''xi'') (CHR 0x00) (istream_of [])
      = (Inr Tok_Char, CHR 0x00, istream_of [])"
  by (simp add: lex_char_def stab_def char_name_def tolower_def char_of_nat_bits
      char_of_int_bits multichar_def stoi_zero_x)

section \<open>Facts about string literals\<close>

lemma read_char_noskipws:
  "good inp \<Longrightarrow> \<not> skipws inp \<Longrightarrow> buf inp = x # xs \<Longrightarrow> read_char inp = (Some x, inp\<lparr>buf := xs\<rparr>)"
  by (simp add: read_char_def)

lemma good_update [simp]:
  "good (inp\<lparr>skipws := b\<rparr>) = good inp" "good (inp\<lparr>buf := s\<rparr>) = good inp"
  by (simp_all add: good_def)

lemma good_not_fail: "good inp \<Longrightarrow> \<not> failbit inp"
  by (simp add: good_def)

lemma lex_string_loop_quote:
  assumes "good inp" "buf inp = CHR 0x22 # rest"
  shows "lex_string_loop str c inp = (Tok_String, str, inp\<lparr>skipws := False, buf := rest\<rparr>)"
  using assms
  by (subst lex_string_loop.simps) (simp add: read_char_noskipws good_not_fail)

lemma lex_string_loop_plain:
  assumes "good inp" "buf inp = x # rest" "iswprint x" "x \<noteq> CHR 0x22" "x \<noteq> CHR 0x5C"
  shows "lex_string_loop str c inp = lex_string_loop (str @ [x]) x (inp\<lparr>skipws := False, buf := rest\<rparr>)"
  using assms
  by (subst lex_string_loop.simps) (simp add: read_char_noskipws good_not_fail)

lemma lex_string_loop_escaped:
  assumes "good inp" "buf inp = CHR 0x5C # x # rest" "iswprint x"
  shows "lex_string_loop str c inp
    = lex_string_loop (str @ [CHR 0x5C, x]) x (inp\<lparr>skipws := False, buf := rest\<rparr>)"
  using assms
  by (subst lex_string_loop.simps) (simp add: read_char_noskipws good_not_fail)

lemma lex_string_loop_not_printable:
  assumes "good inp" "buf inp = x # rest" "\<not> iswprint x"
  shows "fst (lex_string_loop str c inp) = Tok_Error"
proof -
  have "x \<noteq> CHR 0x22" "x \<noteq> CHR 0x5C"
    using assms(3) by (auto simp: iswprint_def)
  with assms show ?thesis
    by (subst lex_string_loop.simps) (simp add: read_char_noskipws good_not_fail)
qed

lemma lex_string_loop_escaped_not_printable:
  assumes "good inp" "buf inp = CHR 0x5C # x # rest" "\<not> iswprint x"
  shows "fst (lex_string_loop str c inp) = Tok_Error"
  using assms
  by (subst lex_string_loop.simps) (simp add: read_char_noskipws good_not_fail)

lemma lex_string_loop_items:
  "list_all item_ok items \<Longrightarrow> good inp \<Longrightarrow> buf inp = literal_text items @ rest \<Longrightarrow>
   \<exists>c'. lex_string_loop str c inp
     = lex_string_loop (str @ literal_text items) c' (inp\<lparr>skipws := skipws inp \<and> items = [], buf := rest\<rparr>)"
proof (induction items arbitrary: str c inp)
  case Nil
  then have "inp\<lparr>skipws := skipws inp, buf := rest\<rparr> = inp"
    by (simp add: literal_text_def)
  then show ?case
    by (auto simp: literal_text_def)
next
  case (Cons it items)
  from Cons.prems have ok: "list_all item_ok items"
    by simp
  let ?in1 = "inp\<lparr>skipws := False, buf := literal_text items @ rest\<rparr>"
  have g1: "good ?in1" and b1: "buf ?in1 = literal_text items @ rest"
    using Cons.prems(2) by simp_all
  have "\<exists>s. lex_string_loop str c inp = lex_string_loop (str @ item_text it) s ?in1"
  proof (cases it)
    case (Plain x)
    with Cons.prems have x: "iswprint x" "x \<noteq> CHR 0x22" "x \<noteq> CHR 0x5C"
      and b: "buf inp = x # (literal_text items @ rest)"
      by (simp_all add: literal_text_def)
    show ?thesis
      using lex_string_loop_plain [OF Cons.prems(2) b x] Plain by auto
  next
    case (Escaped x)
    with Cons.prems have x: "iswprint x"
      and b: "buf inp = CHR 0x5C # x # (literal_text items @ rest)"
      by (simp_all add: literal_text_def)
    show ?thesis
      using lex_string_loop_escaped [OF Cons.prems(2) b x] Escaped by auto
  qed
  then obtain s where 1: "lex_string_loop str c inp = lex_string_loop (str @ item_text it) s ?in1"
    by blast
  from Cons.IH [OF ok g1 b1, of "str @ item_text it" s]
  obtain c' where 2: "lex_string_loop (str @ item_text it) s ?in1
     = lex_string_loop ((str @ item_text it) @ literal_text items) c'
         (?in1\<lparr>skipws := skipws ?in1 \<and> items = [], buf := rest\<rparr>)"
    by blast
  have 3: "?in1\<lparr>skipws := skipws ?in1 \<and> items = [], buf := rest\<rparr>
      = inp\<lparr>skipws := skipws inp \<and> it # items = [], buf := rest\<rparr>"
    by simp
  have 4: "(str @ item_text it) @ literal_text items = str @ literal_text (it # items)"
    by (simp add: literal_text_def)
  show ?case
    using 1 2 unfolding 3 4 by metis
qed

lemma display_String_plain:
  "x \<noteq> CHR 0x5C \<Longrightarrow> display_String (x # s) = x # display_String s"
  by (cases s) simp_all

lemma display_String_items:
  "list_all item_ok items \<Longrightarrow> display_String (literal_text items) = map item_display items"
proof (induction items)
  case Nil
  show ?case by (simp add: literal_text_def)
next
  case (Cons it items)
  then have IH: "display_String (literal_text items) = map item_display items"
    by simp
  show ?case
  proof (cases it)
    case (Plain x)
    with Cons.prems have "x \<noteq> CHR 0x5C" by simp
    with IH Plain show ?thesis
      by (simp add: literal_text_def display_String_plain)
  next
    case (Escaped x)
    with IH show ?thesis
      by (simp add: literal_text_def)
  qed
qed

lemma skip_spaces_no_space:
  assumes "good inp" "buf inp = x # rest" "\<not> iswspace x"
  shows "skip_spaces inp = (Some x, inp\<lparr>buf := rest\<rparr>)"
  using assms by (subst skip_spaces.simps) (simp add: read_char_def)

lemma is_special_quote: "is_special (CHR 0x22)"
  by (simp add: is_special_def strchr_def)

lemma not_iswspace_quote: "\<not> iswspace (CHR 0x22)"
  by (simp add: iswspace_def)

text \<open>
  Claim C7 (string escapes). Let the text of a literal consist of printable characters
  other than the quote and the backslash, and of backslashes each followed by a printable
  character. Then \<open>lex_string\<close>, reading that text and the closing quote, returns a String
  token with exactly that text, every backslash and the character after it included, and
  leaves the rest of the input; \<open>get_token\<close>, reading the literal with its opening quote,
  stores that text as the string of the token. A character that is not printable, on its
  own or after a backslash, makes the token an Error. \<open>display\<close> of the stored text writes
  a plain character as it is and an escaped character \<open>a b n r t\<close> as the control
  character \<open>07 08 0A 0D 09\<close>, any other escaped character as itself.
\<close>

theorem C7_string_escapes:
  assumes "list_all item_ok items" and "good inp"
  shows
    "lex_string c (inp\<lparr>buf := literal_text items @ CHR 0x22 # rest\<rparr>)
       = (Tok_String, literal_text items, inp\<lparr>skipws := False, buf := rest\<rparr>) \<and>
     (put_back P = Tok_None \<longrightarrow>
        get_token X P (inp\<lparr>buf := CHR 0x22 # literal_text items @ CHR 0x22 # rest\<rparr>)
          = (Inr Tok_String, P\<lparr>strtok := literal_text items\<rparr>, inp\<lparr>skipws := False, buf := rest\<rparr>)) \<and>
     (\<not> iswprint x \<longrightarrow>
        fst (lex_string c (inp\<lparr>buf := literal_text items @ x # rest\<rparr>)) = Tok_Error \<and>
        fst (lex_string c (inp\<lparr>buf := literal_text items @ CHR 0x5C # x # rest\<rparr>)) = Tok_Error) \<and>
     display_String (literal_text items) = map item_display items \<and>
     map item_display [Escaped (CHR ''a''), Escaped (CHR ''b''), Escaped (CHR ''n''),
         Escaped (CHR ''r''), Escaped (CHR ''t'')]
       = [CHR 0x07, CHR 0x08, CHR 0x0A, CHR 0x0D, CHR 0x09] \<and>
     (y \<notin> set ''abnrt'' \<longrightarrow> item_display (Escaped y) = y)"
proof -
  have g: "good (inp\<lparr>buf := b\<rparr>)" for b
    using assms(2) by simp
  have upd: "inp\<lparr>buf := b, skipws := False, buf := rest\<rparr> = inp\<lparr>skipws := False, buf := rest\<rparr>" for b
    by simp
  have 1: "lex_string c (inp\<lparr>buf := literal_text items @ CHR 0x22 # rest\<rparr>)
       = (Tok_String, literal_text items, inp\<lparr>skipws := False, buf := rest\<rparr>)"
    if "good inp" for c inp
  proof -
    let ?in0 = "inp\<lparr>buf := literal_text items @ CHR 0x22 # rest\<rparr>"
    have g0: "good ?in0" using that by simp
    obtain c' where "lex_string_loop [] c ?in0
       = lex_string_loop ([] @ literal_text items) c'
           (?in0\<lparr>skipws := skipws ?in0 \<and> items = [], buf := CHR 0x22 # rest\<rparr>)"
      using lex_string_loop_items [OF assms(1) g0, of "CHR 0x22 # rest" "[]" c] by auto
    moreover have "lex_string_loop (literal_text items) c'
           (?in0\<lparr>skipws := skipws ?in0 \<and> items = [], buf := CHR 0x22 # rest\<rparr>)
        = (Tok_String, literal_text items, inp\<lparr>skipws := False, buf := rest\<rparr>)"
      using that by (subst lex_string_loop_quote [where rest = rest]) simp_all
    ultimately show ?thesis
      by (simp add: lex_string_def)
  qed
  have 2: "get_token X P (inp\<lparr>buf := CHR 0x22 # literal_text items @ CHR 0x22 # rest\<rparr>)
          = (Inr Tok_String, P\<lparr>strtok := literal_text items\<rparr>, inp\<lparr>skipws := False, buf := rest\<rparr>)"
    if "put_back P = Tok_None"
  proof -
    let ?in0 = "inp\<lparr>buf := CHR 0x22 # literal_text items @ CHR 0x22 # rest\<rparr>"
    have "skip_spaces ?in0 = (Some (CHR 0x22), ?in0\<lparr>buf := literal_text items @ CHR 0x22 # rest\<rparr>)"
      using g by (intro skip_spaces_no_space) (simp_all add: not_iswspace_quote)
    then have s: "skip_spaces ?in0 = (Some (CHR 0x22), inp\<lparr>buf := literal_text items @ CHR 0x22 # rest\<rparr>)"
      by simp
    show ?thesis
      using that g
      by (simp add: get_token_def s is_special_quote dispatch_token_def 1 [OF assms(2)])
  qed
  have 3: "fst (lex_string c (inp\<lparr>buf := literal_text items @ x # rest\<rparr>)) = Tok_Error"
    if "\<not> iswprint x"
  proof -
    let ?in0 = "inp\<lparr>buf := literal_text items @ x # rest\<rparr>"
    have g0: "good ?in0" using g by simp
    obtain c' where "lex_string_loop [] c ?in0
       = lex_string_loop ([] @ literal_text items) c'
           (?in0\<lparr>skipws := skipws ?in0 \<and> items = [], buf := x # rest\<rparr>)"
      using lex_string_loop_items [OF assms(1) g0, of "x # rest" "[]" c] by auto
    moreover have "fst (lex_string_loop (literal_text items) c'
           (?in0\<lparr>skipws := skipws ?in0 \<and> items = [], buf := x # rest\<rparr>)) = Tok_Error"
      using assms(2) that by (intro lex_string_loop_not_printable [where x = x and rest = rest]) simp_all
    ultimately show ?thesis
      by (simp add: lex_string_def)
  qed
  have 4: "fst (lex_string c (inp\<lparr>buf := literal_text items @ CHR 0x5C # x # rest\<rparr>)) = Tok_Error"
    if "\<not> iswprint x"
  proof -
    let ?in0 = "inp\<lparr>buf := literal_text items @ CHR 0x5C # x # rest\<rparr>"
    have g0: "good ?in0" using g by simp
    obtain c' where "lex_string_loop [] c ?in0
       = lex_string_loop ([] @ literal_text items) c'
           (?in0\<lparr>skipws := skipws ?in0 \<and> items = [], buf := CHR 0x5C # x # rest\<rparr>)"
      using lex_string_loop_items [OF assms(1) g0, of "CHR 0x5C # x # rest" "[]" c] by auto
    moreover have "fst (lex_string_loop (literal_text items) c'
           (?in0\<lparr>skipws := skipws ?in0 \<and> items = [], buf := CHR 0x5C # x # rest\<rparr>)) = Tok_Error"
      using assms(2) that
      by (intro lex_string_loop_escaped_not_printable [where x = x and rest = rest]) simp_all
    ultimately show ?thesis
      by (simp add: lex_string_def)
  qed
  have 5: "display_String (literal_text items) = map item_display items"
    using assms(1) by (rule display_String_items)
  have 6: "map item_display [Escaped (CHR ''a''), Escaped (CHR ''b''), Escaped (CHR ''n''),
         Escaped (CHR ''r''), Escaped (CHR ''t'')]
       = [CHR 0x07, CHR 0x08, CHR 0x0A, CHR 0x0D, CHR 0x09]"
    by (simp add: display_escape_def)
  have 7: "y \<notin> set ''abnrt'' \<longrightarrow> item_display (Escaped y) = y"
    by (simp add: display_escape_def)
  from 1 [OF assms(2)] 2 3 4 5 6 7 show ?thesis
    by blast
qed

theorem C7_witness:
  "\<forall>X P c. list_all item_ok [Plain (CHR ''a''), Escaped (CHR ''n''), Plain (CHR ''b'')] \<and>
     good (istream_of []) \<and> put_back (P\<lparr>put_back := Tok_None\<rparr>) = Tok_None \<and>
     \<not> iswprint (CHR 0x0A) \<and> CHR ''q'' \<notin> set ''abnrt'' \<and>
     lex_string c (istream_of [CHR ''a'', CHR 0x5C, CHR ''n'', CHR ''b'', CHR 0x22])
       = (Tok_String, [CHR ''a'', CHR 0x5C, CHR ''n'', CHR ''b''], (istream_of [])\<lparr>skipws := False\<rparr>) \<and>
     get_token X (P\<lparr>put_back := Tok_None\<rparr>)
         (istream_of [CHR 0x22, CHR ''a'', CHR 0x5C, CHR ''n'', CHR ''b'', CHR 0x22])
       = (Inr Tok_String, P\<lparr>put_back := Tok_None, strtok := [CHR ''a'', CHR 0x5C, CHR ''n'', CHR ''b'']\<rparr>,
          (istream_of [])\<lparr>skipws := False\<rparr>) \<and>
     fst (lex_string c (istream_of [CHR ''a'', CHR 0x5C, CHR ''n'', CHR ''b'', CHR 0x0A])) = Tok_Error \<and>
     display_String [CHR ''a'', CHR 0x5C, CHR ''n'', CHR ''b''] = [CHR ''a'', CHR 0x0A, CHR ''b''] \<and>
     item_display (Escaped (CHR ''q'')) = CHR ''q''"
  using C7_string_escapes [of "[Plain (CHR ''a''), Escaped (CHR ''n''), Plain (CHR ''b'')]"
      "istream_of []" _ "[]" _ _ "CHR 0x0A" "CHR ''q''"]
  by (simp add: istream_of_def good_def iswprint_def literal_text_def display_escape_def)

section \<open>Facts about the parser\<close>














































end
